theory Spec2Isabelle
  imports Complex_Main "HOL-Library.Sublist"
begin

section \<open>Music Tracker: discovery, classification and the catalog store\<close>

text \<open>
  A shallow embedding of \<^verbatim>\<open>music_tracker/music_tracker.py\<close> (class
  \<^verbatim>\<open>MusicTracker\<close> and the command dispatch of \<^verbatim>\<open>main\<close>).
  A string is the sequence of bytes of its UTF-8 form; a file name that is not valid
  UTF-8 keeps its bytes (Python holds them as lone surrogates). What Python prints is
  collected as a list of messages, and a \<^verbatim>\<open>print\<close> whose text the console cannot
  encode raises. Every exception the source can meet on the paths modelled is a value of
  \<open>exn\<close>. The database file is taken as readable and writable: a statement fails only for
  what its parameters and the table's constraints are.
\<close>

subsection \<open>Strings\<close>

text \<open>\<^verbatim>\<open>str.lower()\<close> on an ASCII letter.\<close>

definition lower_char :: "char \<Rightarrow> char" where
  "lower_char c =
     (case map_of (zip ''ABCDEFGHIJKLMNOPQRSTUVWXYZ'' ''abcdefghijklmnopqrstuvwxyz'') c of
        None \<Rightarrow> c
      | Some l \<Rightarrow> l)"

text \<open>
  \<^verbatim>\<open>str.lower()\<close>, as far as ASCII goes: the ASCII letters are lowered, and the two
  code points outside ASCII whose lower case contains an ASCII letter are mapped as
  Python maps them, U+212A KELVIN SIGN (bytes E2 84 AA) to \<^verbatim>\<open>k\<close> and U+0130 (bytes
  C4 B0) to \<^verbatim>\<open>i\<close> followed by U+0307 (bytes CC 87). Every other code point keeps its
  bytes here; Python may change them, but to bytes outside ASCII again, so the ASCII
  runs of the result are Python's.
\<close>

fun lower :: "string \<Rightarrow> string" where
  "lower (a # b # c # cs) =
     (if a = CHR 0xE2 \<and> b = CHR 0x84 \<and> c = CHR 0xAA then CHR ''k'' # lower cs
      else if a = CHR 0xC4 \<and> b = CHR 0xB0
      then CHR ''i'' # CHR 0xCC # CHR 0x87 # lower (c # cs)
      else lower_char a # lower (b # c # cs))"
| "lower [a, b] =
     (if a = CHR 0xC4 \<and> b = CHR 0xB0 then [CHR ''i'', CHR 0xCC, CHR 0x87]
      else [lower_char a, lower_char b])"
| "lower [a] = [lower_char a]"
| "lower [] = []"

text \<open>\<^verbatim>\<open>s.startswith(p)\<close>.\<close>

fun startswith :: "string \<Rightarrow> string \<Rightarrow> bool" where
  "startswith s [] = True"
| "startswith [] (p # ps) = False"
| "startswith (c # cs) (p # ps) = (c = p \<and> startswith cs ps)"

text \<open>\<^verbatim>\<open>p in s\<close> for strings: \<open>p\<close> occurs in \<open>s\<close> as a contiguous run.\<close>

fun str_in :: "string \<Rightarrow> string \<Rightarrow> bool" where
  "str_in p [] = (p = [])"
| "str_in p (c # cs) = (startswith (c # cs) p \<or> str_in p cs)"

text \<open>
  Whether a byte string is well-formed UTF-8, that is, whether the Python string it
  stands for has no lone surrogate and can be encoded: one byte below 80; C2..DF and a
  continuation byte; E0..EF and two; F0..F4 and three, without overlong forms, surrogates
  or code points above U+10FFFF.
\<close>

definition byte :: "char \<Rightarrow> nat" where
  "byte c = of_char c"

definition continuation :: "char \<Rightarrow> bool" where
  "continuation c \<longleftrightarrow> 0x80 \<le> byte c \<and> byte c \<le> 0xBF"

definition one_byte :: "char \<Rightarrow> bool" where
  "one_byte a \<longleftrightarrow> byte a < 0x80"

definition two_bytes :: "char \<Rightarrow> char \<Rightarrow> bool" where
  "two_bytes a b \<longleftrightarrow> 0xC2 \<le> byte a \<and> byte a \<le> 0xDF \<and> continuation b"

definition three_bytes :: "char \<Rightarrow> char \<Rightarrow> char \<Rightarrow> bool" where
  "three_bytes a b c \<longleftrightarrow>
     0xE0 \<le> byte a \<and> byte a \<le> 0xEF \<and> continuation b \<and> continuation c \<and>
     (if byte a = 0xE0 then 0xA0 \<le> byte b else True) \<and>
     (if byte a = 0xED then byte b \<le> 0x9F else True)"

definition four_bytes :: "char \<Rightarrow> char \<Rightarrow> char \<Rightarrow> char \<Rightarrow> bool" where
  "four_bytes a b c d \<longleftrightarrow>
     0xF0 \<le> byte a \<and> byte a \<le> 0xF4 \<and> continuation b \<and> continuation c \<and>
     continuation d \<and>
     (if byte a = 0xF0 then 0x90 \<le> byte b else True) \<and>
     (if byte a = 0xF4 then byte b \<le> 0x8F else True)"

fun utf8_ok :: "string \<Rightarrow> bool" where
  "utf8_ok (a # b # c # d # r) =
     (if one_byte a then utf8_ok (b # c # d # r)
      else if two_bytes a b then utf8_ok (c # d # r)
      else if three_bytes a b c then utf8_ok (d # r)
      else four_bytes a b c d \<and> utf8_ok r)"
| "utf8_ok [a, b, c] =
     (if one_byte a then utf8_ok [b, c]
      else if two_bytes a b then utf8_ok [c]
      else three_bytes a b c)"
| "utf8_ok [a, b] = (if one_byte a then utf8_ok [b] else two_bytes a b)"
| "utf8_ok [a] = one_byte a"
| "utf8_ok [] = True"

subsection \<open>Paths\<close>

text \<open>
  A \<^verbatim>\<open>pathlib.Path\<close> (POSIX flavour) after parsing: the anchor (\<open>''/''\<close> for an
  absolute path, empty for a relative one) and the components below it.
  \<^verbatim>\<open>Path('/music/a.flp')\<close> is \<open>Path ''/'' [''music'', ''a.flp'']\<close>.
\<close>

datatype path = Path (anchor: string) (names: "string list")

text \<open>\<^verbatim>\<open>p.parts\<close>: the anchor, when there is one, then the components.\<close>

definition parts :: "path \<Rightarrow> string list" where
  "parts p = (if anchor p = [] then [] else [anchor p]) @ names p"

text \<open>\<^verbatim>\<open>p.name\<close>: the last component, empty for a bare anchor or \<^verbatim>\<open>Path('.')\<close>.\<close>

definition name :: "path \<Rightarrow> string" where
  "name p = (if names p = [] then [] else last (names p))"

text \<open>\<^verbatim>\<open>p.parent\<close>: the path without its last component; the parent of a bare
  anchor or of \<^verbatim>\<open>Path('.')\<close> is the path itself.\<close>

definition parent :: "path \<Rightarrow> path" where
  "parent p = Path (anchor p) (butlast (names p))"

text \<open>\<^verbatim>\<open>p / n\<close> for a single component \<open>n\<close>, as \<^verbatim>\<open>iterdir\<close> builds its results.\<close>

definition child :: "path \<Rightarrow> string \<Rightarrow> path" where
  "child p n = Path (anchor p) (names p @ [n])"

text \<open>\<^verbatim>\<open>s.rfind('.')\<close>: the index of the last dot, \<open>None\<close> for Python's \<open>-1\<close>.\<close>

fun rfind_dot :: "string \<Rightarrow> nat option" where
  "rfind_dot [] = None"
| "rfind_dot (c # cs) =
     (case rfind_dot cs of
        Some i \<Rightarrow> Some (Suc i)
      | None \<Rightarrow> if c = CHR ''.'' then Some 0 else None)"

text \<open>\<^verbatim>\<open>p.stem\<close>: the name without its last suffix; a name whose only dot is its
  first or its last character has no suffix.\<close>

definition stem :: "path \<Rightarrow> string" where
  "stem p =
     (let n = name p in
      case rfind_dot n of
        None \<Rightarrow> n
      | Some i \<Rightarrow> if 0 < i \<and> i < length n - 1 then take i n else n)"

fun join_slash :: "string list \<Rightarrow> string" where
  "join_slash [] = []"
| "join_slash [n] = n"
| "join_slash (n # m # ns) = n @ ''/'' @ join_slash (m # ns)"

text \<open>\<^verbatim>\<open>str(p)\<close>.\<close>

definition str_path :: "path \<Rightarrow> string" where
  "str_path p =
     (if names p = [] then (if anchor p = [] then ''.'' else anchor p)
      else anchor p @ join_slash (names p))"

subsection \<open>The path classifier\<close>

definition skip_patterns :: "string list" where
  "skip_patterns =
     [''auto-backup'', ''auto-save'', ''backup'', ''temp'', ''tmp'',
      ''.backup'', ''_backup'', ''autosave'', ''recovery'']"

definition backup_filename_patterns :: "string list" where
  "backup_filename_patterns =
     ['' [20'', ''.bak'', ''_bak'', ''.backup'', ''_backup'', ''~'', ''.tmp'']"

text \<open>
  \<^verbatim>\<open>MusicTracker._should_skip_file\<close> (lines 135-172). The first loop runs over
  \<^verbatim>\<open>project_file.parts\<close>, which ends with the file's own name.
\<close>

definition should_skip_file :: "path \<Rightarrow> bool" where
  "should_skip_file project_file =
     (if \<exists>part \<in> set (parts project_file).
           \<exists>pattern \<in> set skip_patterns. str_in pattern (lower part)
      then True
      else if \<exists>pattern \<in> set backup_filename_patterns.
                str_in pattern (lower (name project_file))
      then True
      else False)"

text \<open>
  The classifier as the specification words it: the directory markers are looked for
  in the names of the ancestor directories, the file-name markers in the file's own name.
\<close>

definition ancestor_names :: "path \<Rightarrow> string list" where
  "ancestor_names p = parts (parent p)"

definition spec_is_noise :: "path \<Rightarrow> bool" where
  "spec_is_noise p \<longleftrightarrow>
     (\<exists>d \<in> set (ancestor_names p). \<exists>m \<in> set skip_patterns. str_in m (lower d)) \<or>
     (\<exists>m \<in> set backup_filename_patterns. str_in m (lower (name p)))"


subsection \<open>Exceptions, printed lines, and the world outside the process\<close>

text \<open>
  The exceptions the modelled code can meet, each with its text. \<open>OSError\<close> stands for
  the class and its subclasses (\<^verbatim>\<open>FileNotFoundError\<close>, \<^verbatim>\<open>PermissionError\<close>);
  \<open>IntegrityError\<close> and \<open>ProgrammingError\<close> are those of \<^verbatim>\<open>sqlite3\<close>. All of them
  derive from \<^verbatim>\<open>Exception\<close>.
\<close>

datatype exn =
    OSError string
  | ValueError string
  | OverflowError string
  | KeyError string
  | UnicodeEncodeError string
  | IntegrityError string
  | ProgrammingError string
  | AttributeError string

fun exn_text :: "exn \<Rightarrow> string" where
  "exn_text (OSError t) = t"
| "exn_text (ValueError t) = t"
| "exn_text (OverflowError t) = t"
| "exn_text (KeyError t) = t"
| "exn_text (UnicodeEncodeError t) = t"
| "exn_text (IntegrityError t) = t"
| "exn_text (ProgrammingError t) = t"
| "exn_text (AttributeError t) = t"

text \<open>A \<^verbatim>\<open>datetime.date\<close>, whose year lies in 1..9999; SQLite holds it as the text
  \<^verbatim>\<open>YYYY-MM-DD\<close>.\<close>

datatype date = Date (date_year: int) (date_month: nat) (date_day: nat)

type_synonym timestamp = rat

text \<open>
  The fields of \<^verbatim>\<open>os.stat_result\<close> that the code reads. \<open>st_size\<close> is a file
  offset of the platform, below \<open>2 ^ 63\<close>. \<open>st_birthtime\<close> is \<open>None\<close> on a platform
  whose result has no such attribute.
\<close>

record stat_result =
  st_size :: nat
  st_birthtime :: "timestamp option"
  st_ctime :: timestamp
  st_mtime :: timestamp

text \<open>
  What the process observes of the filesystem, the clock and the console during one
  command, as the answers of the library calls the code makes:
  \<^verbatim>\<open>Path.stat\<close>, \<^verbatim>\<open>Path.iterdir\<close> (the entry names; each result is the
  directory joined with a name), \<^verbatim>\<open>Path.is_file\<close>, \<^verbatim>\<open>Path.exists\<close>,
  \<^verbatim>\<open>Path.rglob\<close> (by pattern; an exception of the search is taken to come before
  its first match), \<^verbatim>\<open>datetime.fromtimestamp(t).date()\<close> (which depends on the
  local time zone), and whether \<^verbatim>\<open>sys.stdout\<close> can encode a text. On a console that
  is strictly UTF-8 the last is \<open>utf8_ok\<close>.
\<close>

record env =
  stat :: "path \<Rightarrow> exn + stat_result"
  iterdir :: "path \<Rightarrow> exn + string list"
  is_file :: "path \<Rightarrow> exn + bool"
  exists :: "path \<Rightarrow> exn + bool"
  rglob :: "path \<Rightarrow> string \<Rightarrow> exn + path list"
  fromtimestamp :: "timestamp \<Rightarrow> exn + date"
  stdout_accepts :: "string \<Rightarrow> bool"

text \<open>The lines the code prints, one constructor per \<^verbatim>\<open>print\<close> call.\<close>

datatype message =
    Directory_not_found path
  | Scanning path
  | Error_analyzing path exn
  | No_projects_found path
  | Added string string
  | Already_exists string
  | Added_new nat
  | Raw_project_not_found int
  | Refined string
  | Error_refining exn

text \<open>
  The texts of a line that are not ASCII words of the program: file names, titles, the
  text of an exception of the operating system, and the cross mark U+274C of line 110.
  The exceptions \<^verbatim>\<open>refine_project\<close> prints are those of \<^verbatim>\<open>sqlite3\<close> and of
  Python, whose texts are ASCII. The console is taken to accept ASCII.
\<close>

definition cross_mark :: string where
  "cross_mark = [CHR 0xE2, CHR 0x9D, CHR 0x8C]"

fun message_texts :: "message \<Rightarrow> string list" where
  "message_texts (Directory_not_found p) = [cross_mark, str_path p]"
| "message_texts (Scanning p) = [str_path p]"
| "message_texts (Error_analyzing p x) = [str_path p, exn_text x]"
| "message_texts (No_projects_found p) = [str_path p]"
| "message_texts (Added daw title) = [daw, title]"
| "message_texts (Already_exists title) = [title]"
| "message_texts (Added_new n) = []"
| "message_texts (Raw_project_not_found i) = []"
| "message_texts (Refined title) = [title]"
| "message_texts (Error_refining x) = []"

text \<open>Whether \<^verbatim>\<open>print\<close> of the line returns; otherwise it raises
  \<^verbatim>\<open>UnicodeEncodeError\<close>.\<close>

definition print_ok :: "env \<Rightarrow> message \<Rightarrow> bool" where
  "print_ok e m = list_all (stdout_accepts e) (message_texts m)"

definition print_error :: exn where
  "print_error = UnicodeEncodeError ''stdout: character cannot be encoded''"

subsection \<open>The project resolver\<close>

text \<open>
  The dictionary \<^verbatim>\<open>_analyze_project_file\<close> returns. \<open>additional_files\<close> is the
  JSON text of a list of names, held here as the list it encodes (\<open>None\<close> for Python's
  \<^verbatim>\<open>None\<close>); \<^verbatim>\<open>json.dumps\<close> writes that text in ASCII. \<open>file_size_mb\<close> is
  the decimal number of two places that the float is nearest to.
\<close>

record project_info =
  project_file_path :: string
  project_folder_path :: "string option"
  daw_type :: string
  detected_title :: string
  file_size_mb :: rat
  date_created :: date
  date_modified :: date
  additional_files :: "string list option"

text \<open>Rounding to the nearest integer, a tie going to the even one.\<close>

definition round_half_even :: "rat \<Rightarrow> int" where
  "round_half_even x =
     (let f = \<lfloor>x\<rfloor>; d = x - of_int f in
      if d < 1 / 2 then f
      else if 1 / 2 < d then f + 1
      else if even f then f else f + 1)"

text \<open>
  \<^verbatim>\<open>round(x, 2)\<close> on a float: CPython rounds the exact value of \<open>x\<close> to two
  decimals, a tie going to the even digit, and returns the float nearest to that decimal.
\<close>

definition round2 :: "rat \<Rightarrow> rat" where
  "round2 x = of_int (round_half_even (x * 100)) / 100"

text \<open>
  The float nearest to a natural number: numbers below \<open>2 ^ 53\<close> are floats; above, the
  53 leading bits are kept, rounded to nearest with ties to even. \<open>halvings n\<close> is the
  number of bits dropped.
\<close>

fun halvings :: "nat \<Rightarrow> nat" where
  "halvings n = (if n < 2 ^ 53 then 0 else Suc (halvings (n div 2)))"

declare halvings.simps [simp del]

definition float_of_nat :: "nat \<Rightarrow> rat" where
  "float_of_nat n =
     (let k = halvings n in of_int (round_half_even (of_nat n / 2 ^ k)) * 2 ^ k)"

text \<open>
  Line 178, \<^verbatim>\<open>file_stat.st_size / (1024 * 1024)\<close>: the float nearest to the quotient
  of the two integers. The divisor is a power of two, so this is the float nearest to
  the size, divided exactly.
\<close>

definition size_mb :: "nat \<Rightarrow> rat" where
  "size_mb n = float_of_nat n / (1024 * 1024)"

text \<open>
  Lines 181-190: the birth time where the platform has it, the status-change time
  otherwise; an \<^verbatim>\<open>OSError\<close> or \<^verbatim>\<open>ValueError\<close> of the first conversion
  falls back to the status-change time, any other exception leaves the block.
\<close>

definition creation_date :: "env \<Rightarrow> stat_result \<Rightarrow> exn + date" where
  "creation_date e file_stat =
     (case fromtimestamp e
             (case st_birthtime file_stat of
                Some b \<Rightarrow> b
              | None \<Rightarrow> st_ctime file_stat) of
        Inr d \<Rightarrow> Inr d
      | Inl (OSError m) \<Rightarrow> fromtimestamp e (st_ctime file_stat)
      | Inl (ValueError m) \<Rightarrow> fromtimestamp e (st_ctime file_stat)
      | Inl x \<Rightarrow> Inl x)"

text \<open>
  Line 209: \<^verbatim>\<open>any(sibling.name.startswith(stem) for sibling in parent_dir.iterdir()
  if sibling != project_file)\<close>, over the entry names of the listing.
\<close>

definition any_sibling_startswith :: "path \<Rightarrow> path \<Rightarrow> string list \<Rightarrow> bool" where
  "any_sibling_startswith parent_dir project_file entries =
     (\<exists>n \<in> set entries.
        child parent_dir n \<noteq> project_file \<and>
        startswith (name (child parent_dir n)) (stem project_file))"

text \<open>
  Lines 204-211, the Logic Pro branch: whether the parent directory is taken as the
  project folder. The listing is read only when the names differ (\<^verbatim>\<open>or\<close> is
  short-circuit).
\<close>

definition logic_in_folder :: "env \<Rightarrow> path \<Rightarrow> exn + bool" where
  "logic_in_folder e project_file =
     (let parent_dir = parent project_file in
      if name parent_dir = stem project_file then Inr True
      else case iterdir e parent_dir of
             Inl x \<Rightarrow> Inl x
           | Inr entries \<Rightarrow> Inr (any_sibling_startswith parent_dir project_file entries))"

text \<open>
  Lines 218-220, the loop over the folder's entries: an entry is kept when it is not the
  project file, is a regular file and its name does not start with a dot, tested in this
  order. An exception of \<^verbatim>\<open>is_file\<close> ends the loop.
\<close>

fun collect_additional :: "env \<Rightarrow> path \<Rightarrow> path \<Rightarrow> string list \<Rightarrow> exn + string list" where
  "collect_additional e project_folder project_file [] = Inr []"
| "collect_additional e project_folder project_file (n # ns) =
     (let item = child project_folder n in
      if item = project_file then collect_additional e project_folder project_file ns
      else case is_file e item of
             Inl x \<Rightarrow> Inl x
           | Inr f \<Rightarrow>
               (case collect_additional e project_folder project_file ns of
                  Inl x \<Rightarrow> Inl x
                | Inr rest \<Rightarrow>
                    Inr (if f \<and> \<not> startswith (name item) ''.'' then name item # rest else rest)))"

text \<open>Lines 216-220: the additional files of the project folder, none without a folder.\<close>

definition find_additional_files :: "env \<Rightarrow> path option \<Rightarrow> path \<Rightarrow> exn + string list" where
  "find_additional_files e project_folder project_file =
     (case project_folder of
        None \<Rightarrow> Inr []
      | Some folder \<Rightarrow>
          (case iterdir e folder of
             Inl x \<Rightarrow> Inl x
           | Inr entries \<Rightarrow> collect_additional e folder project_file entries))"

text \<open>Lines 194-211: the project folder and the title, by extension.\<close>

definition folder_and_title :: "env \<Rightarrow> path \<Rightarrow> string \<Rightarrow> exn + (path option \<times> string)" where
  "folder_and_title e project_file extension =
     (if extension \<in> set [''.song'', ''.bwproject'']
      then Inr (Some (parent project_file), name (parent project_file))
      else if extension = ''.logicx''
      then (case logic_in_folder e project_file of
              Inl x \<Rightarrow> Inl x
            | Inr True \<Rightarrow> Inr (Some (parent project_file), name (parent project_file))
            | Inr False \<Rightarrow> Inr (None, stem project_file))
      else Inr (None, stem project_file))"

text \<open>The body of the \<^verbatim>\<open>try\<close> block of \<^verbatim>\<open>_analyze_project_file\<close>, lines 177-231.\<close>

definition analyze_body :: "env \<Rightarrow> path \<Rightarrow> string \<Rightarrow> string \<Rightarrow> exn + project_info" where
  "analyze_body e project_file daw_name extension =
     (case stat e project_file of
        Inl x \<Rightarrow> Inl x
      | Inr file_stat \<Rightarrow>
     (case creation_date e file_stat of
        Inl x \<Rightarrow> Inl x
      | Inr created \<Rightarrow>
     (case fromtimestamp e (st_mtime file_stat) of
        Inl x \<Rightarrow> Inl x
      | Inr modified \<Rightarrow>
     (case folder_and_title e project_file extension of
        Inl x \<Rightarrow> Inl x
      | Inr (project_folder, title) \<Rightarrow>
     (case find_additional_files e project_folder project_file of
        Inl x \<Rightarrow> Inl x
      | Inr files \<Rightarrow>
          Inr \<lparr> project_file_path = str_path project_file,
                project_folder_path = map_option str_path project_folder,
                daw_type = daw_name,
                detected_title = title,
                file_size_mb = round2 (size_mb (st_size file_stat)),
                date_created = created,
                date_modified = modified,
                additional_files = (if files = [] then None else Some files) \<rparr>)))))"

text \<open>
  \<^verbatim>\<open>MusicTracker._analyze_project_file\<close> (lines 174-235): the body under
  \<^verbatim>\<open>except Exception\<close>, whose handler prints the exception (line 234) and returns
  \<^verbatim>\<open>None\<close>. When the console cannot encode that line, the \<^verbatim>\<open>print\<close> raises
  inside the handler and the function raises to its caller. The result is what the
  function returns or raises, and the lines it printed.
\<close>

definition analyze_project_file ::
  "env \<Rightarrow> path \<Rightarrow> string \<Rightarrow> string \<Rightarrow> (exn + project_info option) \<times> message list" where
  "analyze_project_file e project_file daw_name extension =
     (case analyze_body e project_file daw_name extension of
        Inr info \<Rightarrow> (Inr (Some info), [])
      | Inl x \<Rightarrow>
          if print_ok e (Error_analyzing project_file x)
          then (Inr None, [Error_analyzing project_file x])
          else (Inl print_error, []))"

subsection \<open>The discovery walker\<close>

definition daw_patterns :: "(string \<times> string) list" where
  "daw_patterns =
     [(''.flp'', ''FL Studio''), (''.logicx'', ''Logic Pro''),
      (''.song'', ''Studio One''), (''.bwproject'', ''Bitwig'')]"

text \<open>
  Lines 124-131: the inner loop over the matches of one pattern. An exception of the
  resolver is not caught here and ends the loop.
\<close>

fun scan_matches ::
  "env \<Rightarrow> string \<Rightarrow> string \<Rightarrow> path list \<Rightarrow> (exn + project_info list) \<times> message list" where
  "scan_matches e daw_name pattern [] = (Inr [], [])"
| "scan_matches e daw_name pattern (project_file # rest) =
     (if should_skip_file project_file then scan_matches e daw_name pattern rest
      else case analyze_project_file e project_file daw_name pattern of
             (Inl x, out) \<Rightarrow> (Inl x, out)
           | (Inr project_info, out) \<Rightarrow>
               (case scan_matches e daw_name pattern rest of
                  (Inl x, outs) \<Rightarrow> (Inl x, out @ outs)
                | (Inr projects, outs) \<Rightarrow>
                    (Inr (case project_info of
                            None \<Rightarrow> projects
                          | Some info \<Rightarrow> info # projects), out @ outs)))"

text \<open>Lines 123-131: the outer loop over the patterns, in the dictionary's order.\<close>

fun scan_patterns ::
  "env \<Rightarrow> path \<Rightarrow> (string \<times> string) list \<Rightarrow> (exn + project_info list) \<times> message list" where
  "scan_patterns e directory_path [] = (Inr [], [])"
| "scan_patterns e directory_path ((pattern, daw_name) # rest) =
     (case rglob e directory_path (''*'' @ pattern) of
        Inl x \<Rightarrow> (Inl x, [])
      | Inr matches \<Rightarrow>
          (case scan_matches e daw_name pattern matches of
             (Inl x, out) \<Rightarrow> (Inl x, out)
           | (Inr projects, out) \<Rightarrow>
               (case scan_patterns e directory_path rest of
                  (Inl x, out') \<Rightarrow> (Inl x, out @ out')
                | (Inr projects', out') \<Rightarrow> (Inr (projects @ projects'), out @ out'))))"

text \<open>\<^verbatim>\<open>MusicTracker.detect_daw_projects\<close> (lines 104-133).\<close>

definition detect_daw_projects ::
  "env \<Rightarrow> path \<Rightarrow> (exn + project_info list) \<times> message list" where
  "detect_daw_projects e directory =
     (case exists e directory of
        Inl x \<Rightarrow> (Inl x, [])
      | Inr False \<Rightarrow>
          if print_ok e (Directory_not_found directory)
          then (Inr [], [Directory_not_found directory])
          else (Inl print_error, [])
      | Inr True \<Rightarrow>
          if print_ok e (Scanning directory)
          then (case scan_patterns e directory daw_patterns of
                  (r, out) \<Rightarrow> (r, Scanning directory # out))
          else (Inl print_error, []))"


subsection \<open>The catalog store\<close>

text \<open>
  A row of \<^verbatim>\<open>raw_projects\<close> (lines 46-60): the columns \<^verbatim>\<open>add_directory\<close>
  fills from the resolver's dictionary, the integer primary key, the discovery date
  (\<^verbatim>\<open>DEFAULT CURRENT_DATE\<close>) and the notes.
\<close>

record raw_project = project_info +
  rowid :: int
  date_discovered :: date
  raw_notes :: "string option"

text \<open>A text column that holds either the JSON text of a list or a plain string.\<close>

datatype stored_text = Json_list "string list" | Text string

text \<open>A row of \<^verbatim>\<open>refined_projects\<close> (lines 63-85).\<close>

record refined_project =
  rf_id :: int
  rf_raw_project_id :: "int option"
  rf_title :: string
  rf_description :: "string option"
  rf_genre :: "string option"
  rf_bpm :: "int option"
  rf_key_signature :: "string option"
  rf_year :: "int option"
  rf_status :: string
  rf_rating :: "int option"
  rf_tags :: "stored_text option"
  rf_collaboration :: "string option"
  rf_project_file_path :: string
  rf_project_folder_path :: "string option"
  rf_daw_type :: string
  rf_file_size_mb :: rat
  rf_date_created :: date
  rf_date_refined :: date

text \<open>A row of \<^verbatim>\<open>rejected_projects\<close> (lines 88-99).\<close>

record rejected_project =
  rj_id :: int
  rj_raw_project_id :: "int option"
  rj_reason :: "string option"
  rj_project_file_path :: string
  rj_detected_title :: "string option"
  rj_daw_type :: "string option"
  rj_date_rejected :: date

text \<open>
  The database file as the last commit left it: the three tables, each in
  \<^verbatim>\<open>rowid\<close> order of insertion. A connection that is dropped before
  \<^verbatim>\<open>conn.commit()\<close> leaves the file as it was.
\<close>

record db =
  raw_projects :: "raw_project list"
  refined_projects :: "refined_project list"
  rejected_projects :: "rejected_project list"

text \<open>\<^verbatim>\<open>setup_database\<close> on a new file: three empty tables.\<close>

definition setup_database :: db where
  "setup_database = \<lparr> raw_projects = [], refined_projects = [], rejected_projects = [] \<rparr>"

text \<open>The key SQLite gives a row inserted without one: one more than the largest key
  of the table, 1 for an empty table.\<close>

definition next_rowid :: "int list \<Rightarrow> int" where
  "next_rowid ids = (case ids of [] \<Rightarrow> 1 | i # rest \<Rightarrow> fold max rest i + 1)"

text \<open>
  The values \<^verbatim>\<open>cursor.execute\<close> binds to the question marks of a statement:
  \<^verbatim>\<open>None\<close>, an \<^verbatim>\<open>int\<close>, a \<^verbatim>\<open>float\<close>, a \<^verbatim>\<open>str\<close>, a
  \<^verbatim>\<open>date\<close> (or its ISO text), and the text \<^verbatim>\<open>json.dumps\<close> makes of a list,
  which is ASCII.
\<close>

datatype param =
    Null_param
  | Integer_param int
  | Real_param rat
  | Text_param string
  | Date_param date
  | Json_param "string list"

text \<open>An \<^verbatim>\<open>INTEGER\<close> of SQLite is a signed integer of 64 bits.\<close>

definition int64 :: "int \<Rightarrow> bool" where
  "int64 i \<longleftrightarrow> - (2 ^ 63) \<le> i \<and> i < 2 ^ 63"

text \<open>
  Binding one value: \<^verbatim>\<open>sqlite3\<close> raises \<^verbatim>\<open>OverflowError\<close> for an integer
  beyond 64 bits and \<^verbatim>\<open>UnicodeEncodeError\<close> for a string it cannot encode in
  UTF-8. The values are bound in order, before the statement runs.
\<close>

fun bind_param :: "param \<Rightarrow> exn option" where
  "bind_param (Integer_param i) =
     (if int64 i then None
      else Some (OverflowError ''Python int too large to convert to SQLite INTEGER''))"
| "bind_param (Text_param t) =
     (if utf8_ok t then None
      else Some (UnicodeEncodeError ''utf-8 codec cannot encode: surrogates not allowed''))"
| "bind_param Null_param = None"
| "bind_param (Real_param x) = None"
| "bind_param (Date_param x) = None"
| "bind_param (Json_param l) = None"

fun bind_parameters :: "param list \<Rightarrow> exn option" where
  "bind_parameters [] = None"
| "bind_parameters (v # vs) =
     (case bind_param v of
        Some x \<Rightarrow> Some x
      | None \<Rightarrow> bind_parameters vs)"

definition opt_text :: "string option \<Rightarrow> param" where
  "opt_text v = (case v of None \<Rightarrow> Null_param | Some t \<Rightarrow> Text_param t)"

definition opt_int :: "int option \<Rightarrow> param" where
  "opt_int v = (case v of None \<Rightarrow> Null_param | Some i \<Rightarrow> Integer_param i)"

text \<open>The tuple of lines 256-265.\<close>

definition raw_parameters :: "project_info \<Rightarrow> param list" where
  "raw_parameters project =
     [Text_param (project_file_path project),
      opt_text (project_folder_path project),
      Text_param (daw_type project),
      Text_param (detected_title project),
      Real_param (file_size_mb project),
      Date_param (date_created project),
      Date_param (date_modified project),
      (case additional_files project of None \<Rightarrow> Null_param | Some l \<Rightarrow> Json_param l)]"

text \<open>
  The \<^verbatim>\<open>INSERT INTO raw_projects\<close> of lines 251-265. Binding comes first. The
  statement then fails with \<^verbatim>\<open>sqlite3.IntegrityError\<close> when the path is already in
  the table (\<^verbatim>\<open>project_file_path TEXT UNIQUE\<close>); the \<^verbatim>\<open>NOT NULL\<close>
  constraints hold for every dictionary the resolver returns. The result is the table as
  the open transaction sees it.
\<close>

definition insert_raw :: "db \<Rightarrow> date \<Rightarrow> project_info \<Rightarrow> exn + db" where
  "insert_raw d today project =
     (case bind_parameters (raw_parameters project) of
        Some x \<Rightarrow> Inl x
      | None \<Rightarrow>
          if \<exists>r \<in> set (raw_projects d). project_file_path r = project_file_path project
          then Inl (IntegrityError ''UNIQUE constraint failed: raw_projects.project_file_path'')
          else Inr (d\<lparr> raw_projects := raw_projects d @
                 [\<lparr> project_file_path = project_file_path project,
                    project_folder_path = project_folder_path project,
                    daw_type = daw_type project,
                    detected_title = detected_title project,
                    file_size_mb = file_size_mb project,
                    date_created = date_created project,
                    date_modified = date_modified project,
                    additional_files = additional_files project,
                    rowid = next_rowid (map rowid (raw_projects d)),
                    date_discovered = today,
                    raw_notes = None \<rparr>] \<rparr>))"

text \<open>
  Lines 249-270: the loop over the candidates, with the running \<^verbatim>\<open>added_count\<close>.
  The handler catches \<^verbatim>\<open>sqlite3.IntegrityError\<close> only; any other exception of the
  statement, and an exception of either \<^verbatim>\<open>print\<close>, leaves the loop and the
  function.
\<close>

fun insert_projects ::
  "env \<Rightarrow> date \<Rightarrow> project_info list \<Rightarrow> db \<Rightarrow> nat \<Rightarrow> (exn + db \<times> nat) \<times> message list" where
  "insert_projects e today [] d added_count = (Inr (d, added_count), [])"
| "insert_projects e today (project # rest) d added_count =
     (case insert_raw d today project of
        Inr d' \<Rightarrow>
          if print_ok e (Added (daw_type project) (detected_title project))
          then (case insert_projects e today rest d' (added_count + 1) of
                  (r, out) \<Rightarrow> (r, Added (daw_type project) (detected_title project) # out))
          else (Inl print_error, [])
      | Inl (IntegrityError t) \<Rightarrow>
          if print_ok e (Already_exists (detected_title project))
          then (case insert_projects e today rest d added_count of
                  (r, out) \<Rightarrow> (r, Already_exists (detected_title project) # out))
          else (Inl print_error, [])
      | Inl x \<Rightarrow> (Inl x, []))"

text \<open>
  \<^verbatim>\<open>MusicTracker.add_directory\<close> (lines 237-276): the database file after the call,
  the count returned or the exception raised, and the printed lines.
  \<^verbatim>\<open>conn.commit()\<close> stands after the loop (line 272): when the call raises, the
  file is as it was before.
\<close>

definition add_directory ::
  "env \<Rightarrow> date \<Rightarrow> path \<Rightarrow> db \<Rightarrow> db \<times> (exn + nat) \<times> message list" where
  "add_directory e today directory d =
     (case detect_daw_projects e directory of
        (Inl x, out) \<Rightarrow> (d, Inl x, out)
      | (Inr projects, out) \<Rightarrow>
          if projects = []
          then (if print_ok e (No_projects_found directory)
                then (d, Inr 0, out @ [No_projects_found directory])
                else (d, Inl print_error, out))
          else case insert_projects e today projects d 0 of
                 (Inl x, out') \<Rightarrow> (d, Inl x, out @ out')
               | (Inr (d', added_count), out') \<Rightarrow>
                   (d', Inr added_count, out @ out' @ [Added_new added_count]))"

subsection \<open>Looking a project up\<close>

definition digit_chars :: string where
  "digit_chars = ''0123456789''"

text \<open>\<^verbatim>\<open>str(n)\<close> for an integer.\<close>

fun str_nat :: "nat \<Rightarrow> string" where
  "str_nat n =
     (if n < 10 then [digit_chars ! n]
      else str_nat (n div 10) @ [digit_chars ! (n mod 10)])"

declare str_nat.simps [simp del]

definition str_int :: "int \<Rightarrow> string" where
  "str_int i = (if i < 0 then CHR ''-'' # str_nat (nat (- i)) else str_nat (nat i))"

text \<open>\<^verbatim>\<open>s.isdigit()\<close>, for the text of an integer.\<close>

definition isdigit :: "string \<Rightarrow> bool" where
  "isdigit s \<longleftrightarrow> s \<noteq> [] \<and> list_all (\<lambda>c. c \<in> set digit_chars) s"

text \<open>
  SQLite's \<^verbatim>\<open>text LIKE pattern\<close>: \<^verbatim>\<open>%\<close> stands for any run of characters,
  \<^verbatim>\<open>_\<close> for any one character (one byte here), and ASCII letters match without
  regard to case. The patterns of this program are the text of a negative integer between
  two \<^verbatim>\<open>%\<close>.
\<close>

fun like :: "string \<Rightarrow> string \<Rightarrow> bool" where
  "like [] t = (t = [])"
| "like (p # ps) [] = (p = CHR ''%'' \<and> like ps [])"
| "like (p # ps) (c # cs) =
     (if p = CHR ''%'' then like ps (c # cs) \<or> like (p # ps) cs
      else (p = CHR ''_'' \<or> lower_char p = lower_char c) \<and> like ps cs)"

text \<open>The order of two dates, which is the order of their \<^verbatim>\<open>YYYY-MM-DD\<close> texts.\<close>

definition date_less :: "date \<Rightarrow> date \<Rightarrow> bool" where
  "date_less a b \<longleftrightarrow>
     date_year a < date_year b \<or>
     (date_year a = date_year b \<and>
        (date_month a < date_month b \<or>
         (date_month a = date_month b \<and> date_day a < date_day b)))"

text \<open>
  \<^verbatim>\<open>ORDER BY d DESC LIMIT 1\<close>: a row of the latest date. SQL leaves open which
  of several rows of that date comes first; the model takes the earliest inserted.
\<close>

fun latest_by :: "('a \<Rightarrow> date) \<Rightarrow> 'a list \<Rightarrow> 'a option" where
  "latest_by f [] = None"
| "latest_by f (x # xs) =
     (case latest_by f xs of
        None \<Rightarrow> Some x
      | Some y \<Rightarrow> if date_less (f x) (f y) then Some y else Some x)"

text \<open>The dictionary \<^verbatim>\<open>show_project_details\<close> returns: the row, under its
  \<^verbatim>\<open>source_table\<close>.\<close>

datatype details = Raw_details raw_project | Refined_details refined_project

text \<open>
  \<^verbatim>\<open>MusicTracker.show_project_details\<close> (lines 327-383), called with an integer, as
  every caller in the program calls it. The text of an integer is all digits when the
  integer is not negative; \<^verbatim>\<open>int(identifier)\<close> is then the integer itself, and
  binding it to the \<^verbatim>\<open>SELECT\<close> of line 335 raises for one beyond 64 bits. A
  negative integer goes the way of a title, with its text between two \<^verbatim>\<open>%\<close> as the
  pattern. No statement of the function is inside a \<^verbatim>\<open>try\<close>. The final
  \<^verbatim>\<open>json.loads\<close> of \<^verbatim>\<open>additional_files\<close> changes nothing here: the
  column is held as the list its text encodes. (From Python 3.11 on, \<^verbatim>\<open>str\<close> refuses
  an integer of more than 4300 digits with \<^verbatim>\<open>ValueError\<close>; the properties below
  that tell exceptions apart are stated for integers of 64 bits.)
\<close>

definition show_project_details :: "db \<Rightarrow> int \<Rightarrow> exn + details option" where
  "show_project_details d identifier =
     (if isdigit (str_int identifier)
      then (let raw_id = identifier in
            case bind_parameters [Integer_param raw_id] of
              Some x \<Rightarrow> Inl x
            | None \<Rightarrow>
                (case find (\<lambda>r. rowid r = raw_id) (raw_projects d) of
                   Some r \<Rightarrow> Inr (Some (Raw_details r))
                 | None \<Rightarrow>
                     (case find (\<lambda>r. rf_id r = raw_id) (refined_projects d) of
                        Some r \<Rightarrow> Inr (Some (Refined_details r))
                      | None \<Rightarrow> Inr None)))
      else (let title_pattern = ''%'' @ str_int identifier @ ''%'' in
            case latest_by date_discovered
                   (filter (\<lambda>r. like title_pattern (detected_title r)) (raw_projects d)) of
              Some r \<Rightarrow> Inr (Some (Raw_details r))
            | None \<Rightarrow>
                (case latest_by rf_date_refined
                        (filter (\<lambda>r. like title_pattern (rf_title r)) (refined_projects d)) of
                   Some r \<Rightarrow> Inr (Some (Refined_details r))
                 | None \<Rightarrow> Inr None)))"

subsection \<open>Promotion\<close>

text \<open>A value passed for \<^verbatim>\<open>tags\<close>: a list, or a string taken as it is.\<close>

datatype tags_value = Tag_list "string list" | Tag_text string

text \<open>
  The keyword arguments of \<^verbatim>\<open>refine_project\<close>, with the types \<^verbatim>\<open>main\<close>
  gives them; \<open>None\<close> is a key that is not passed.
\<close>

record metadata =
  md_title :: "string option"
  md_description :: "string option"
  md_genre :: "string option"
  md_bpm :: "int option"
  md_key_signature :: "string option"
  md_year :: "int option"
  md_status :: "string option"
  md_rating :: "int option"
  md_tags :: "tags_value option"
  md_collaboration :: "string option"

text \<open>Lines 410-412: the year passed, or else the year of the record's creation date.\<close>

definition refine_year :: "metadata \<Rightarrow> date \<Rightarrow> int option" where
  "refine_year md created =
     (if md_year md = None \<or> md_year md = Some 0 then Some (date_year created)
      else md_year md)"

definition refine_title :: "metadata \<Rightarrow> raw_project \<Rightarrow> string" where
  "refine_title md r = (case md_title md of Some t \<Rightarrow> t | None \<Rightarrow> detected_title r)"

definition refine_status :: "metadata \<Rightarrow> string" where
  "refine_status md = (case md_status md of Some s \<Rightarrow> s | None \<Rightarrow> ''complete'')"

text \<open>The tuple of lines 426-443, for a row of \<^verbatim>\<open>raw_projects\<close>.\<close>

definition refine_parameters :: "int \<Rightarrow> metadata \<Rightarrow> raw_project \<Rightarrow> param list" where
  "refine_parameters raw_id md r =
     [Integer_param raw_id,
      Text_param (refine_title md r),
      opt_text (md_description md),
      opt_text (md_genre md),
      opt_int (md_bpm md),
      opt_text (md_key_signature md),
      opt_int (refine_year md (date_created r)),
      Text_param (refine_status md),
      opt_int (md_rating md),
      (case md_tags md of
         Some (Tag_list l) \<Rightarrow> Json_param l
       | Some (Tag_text t) \<Rightarrow> Text_param t
       | None \<Rightarrow> Null_param),
      opt_text (md_collaboration md),
      Text_param (project_file_path r),
      opt_text (project_folder_path r),
      Text_param (daw_type r),
      Real_param (file_size_mb r),
      Date_param (date_created r)]"

text \<open>
  Lines 409-443 of \<^verbatim>\<open>refine_project\<close>: the statements of the \<^verbatim>\<open>try\<close> block
  up to the \<^verbatim>\<open>INSERT\<close>. Building the tuple reads
  \<^verbatim>\<open>raw_project['detected_title']\<close>, a key that a row of
  \<^verbatim>\<open>refined_projects\<close> does not have. The values are bound; the statement then
  fails on \<^verbatim>\<open>CHECK(rating >= 1 AND rating <= 10)\<close>, which a \<^verbatim>\<open>NULL\<close>
  rating passes. Foreign keys are not enforced (SQLite's default). The result is the new
  store and the title to print.
\<close>

definition refine_insert ::
  "db \<Rightarrow> date \<Rightarrow> int \<Rightarrow> metadata \<Rightarrow> details \<Rightarrow> exn + (db \<times> string)" where
  "refine_insert d today raw_id md raw_project =
     (case raw_project of
        Refined_details r \<Rightarrow> Inl (KeyError ''detected_title'')
      | Raw_details r \<Rightarrow>
          (case bind_parameters (refine_parameters raw_id md r) of
             Some x \<Rightarrow> Inl x
           | None \<Rightarrow>
               if (case md_rating md of Some x \<Rightarrow> 1 \<le> x \<and> x \<le> 10 | None \<Rightarrow> True)
               then Inr (d\<lparr> refined_projects := refined_projects d @
                      [\<lparr> rf_id = next_rowid (map rf_id (refined_projects d)),
                         rf_raw_project_id = Some raw_id,
                         rf_title = refine_title md r,
                         rf_description = md_description md,
                         rf_genre = md_genre md,
                         rf_bpm = md_bpm md,
                         rf_key_signature = md_key_signature md,
                         rf_year = refine_year md (date_created r),
                         rf_status = refine_status md,
                         rf_rating = md_rating md,
                         rf_tags = (case md_tags md of
                                      Some (Tag_list l) \<Rightarrow> Some (Json_list l)
                                    | Some (Tag_text t) \<Rightarrow> Some (Text t)
                                    | None \<Rightarrow> None),
                         rf_collaboration = md_collaboration md,
                         rf_project_file_path = project_file_path r,
                         rf_project_folder_path = project_folder_path r,
                         rf_daw_type = daw_type r,
                         rf_file_size_mb = file_size_mb r,
                         rf_date_created = date_created r,
                         rf_date_refined = today \<rparr>] \<rparr>, refine_title md r)
               else Inl (IntegrityError
                      ''CHECK constraint failed: rating >= 1 AND rating <= 10'')))"

text \<open>
  \<^verbatim>\<open>MusicTracker.refine_project\<close> (lines 397-453): the database file after the call,
  the flag returned or the exception raised, and the printed lines. The lookup of line
  400 is outside the \<^verbatim>\<open>try\<close>. The \<^verbatim>\<open>print\<close> of line 446 is inside it, after
  \<^verbatim>\<open>conn.commit()\<close> and \<^verbatim>\<open>conn.close()\<close>: when it raises, the handler's
  \<^verbatim>\<open>conn.rollback()\<close> meets a closed connection and raises
  \<^verbatim>\<open>sqlite3.ProgrammingError\<close>, with the new row committed.
\<close>

definition refine_project ::
  "env \<Rightarrow> db \<Rightarrow> date \<Rightarrow> int \<Rightarrow> metadata \<Rightarrow> db \<times> (exn + bool) \<times> message list" where
  "refine_project e d today raw_id md =
     (case show_project_details d raw_id of
        Inl x \<Rightarrow> (d, Inl x, [])
      | Inr None \<Rightarrow> (d, Inr False, [Raw_project_not_found raw_id])
      | Inr (Some raw_project) \<Rightarrow>
          (case refine_insert d today raw_id md raw_project of
             Inr (d', title) \<Rightarrow>
               if print_ok e (Refined title) then (d', Inr True, [Refined title])
               else (d', Inl (ProgrammingError ''Cannot operate on a closed database.''), [])
           | Inl x \<Rightarrow> (d, Inr False, [Error_refining x])))"

subsection \<open>The refine command\<close>

text \<open>\<^verbatim>\<open>s.split(c)\<close> for a one-character separator.\<close>

fun split_on :: "char \<Rightarrow> string \<Rightarrow> string list" where
  "split_on c [] = [[]]"
| "split_on c (x # xs) =
     (if x = c then [] # split_on c xs
      else case split_on c xs of
             y # ys \<Rightarrow> (x # y) # ys
           | [] \<Rightarrow> [[x]])"

text \<open>\<^verbatim>\<open>s.strip()\<close>, on the ASCII characters that Python counts as white space.\<close>

definition whitespace :: "char list" where
  "whitespace = [CHR '' '', CHR 0x09, CHR 0x0A, CHR 0x0B, CHR 0x0C, CHR 0x0D,
                 CHR 0x1C, CHR 0x1D, CHR 0x1E, CHR 0x1F]"

definition strip :: "string \<Rightarrow> string" where
  "strip s =
     rev (dropWhile (\<lambda>c. c \<in> set whitespace) (rev (dropWhile (\<lambda>c. c \<in> set whitespace) s)))"

text \<open>
  The parsed arguments of the \<^verbatim>\<open>refine\<close> command (lines 726-735); \<open>None\<close> is an
  option that was not given. \<^verbatim>\<open>--status\<close> has the default \<^verbatim>\<open>complete\<close>.
\<close>

record refine_args =
  arg_id :: int
  arg_title :: "string option"
  arg_description :: "string option"
  arg_genre :: "string option"
  arg_bpm :: "int option"
  arg_key :: "string option"
  arg_status :: string
  arg_rating :: "int option"
  arg_tags :: "string option"

text \<open>\<^verbatim>\<open>if args.x: metadata[...] = args.x\<close>: an empty string and the number 0 are
  false, and the key is then not passed.\<close>

definition truthy_str :: "string option \<Rightarrow> string option" where
  "truthy_str v = (case v of Some s \<Rightarrow> if s = [] then None else Some s | None \<Rightarrow> None)"

definition truthy_int :: "int option \<Rightarrow> int option" where
  "truthy_int v = (case v of Some i \<Rightarrow> if i = 0 then None else Some i | None \<Rightarrow> None)"

text \<open>The \<^verbatim>\<open>refine\<close> command of \<^verbatim>\<open>main\<close> (lines 785-796).\<close>

definition main_refine ::
  "env \<Rightarrow> db \<Rightarrow> date \<Rightarrow> refine_args \<Rightarrow> db \<times> (exn + bool) \<times> message list" where
  "main_refine e d today args =
     refine_project e d today (arg_id args)
       \<lparr> md_title = truthy_str (arg_title args),
         md_description = truthy_str (arg_description args),
         md_genre = truthy_str (arg_genre args),
         md_bpm = truthy_int (arg_bpm args),
         md_key_signature = truthy_str (arg_key args),
         md_year = None,
         md_status = truthy_str (Some (arg_status args)),
         md_rating = truthy_int (arg_rating args),
         md_tags = (case truthy_str (arg_tags args) of
                      Some s \<Rightarrow> Some (Tag_list (map strip (split_on CHR '','' s)))
                    | None \<Rightarrow> None),
         md_collaboration = None \<rparr>"

subsection \<open>The reject command\<close>

text \<open>
  The names the body of \<^verbatim>\<open>class MusicTracker\<close> binds (its \<^verbatim>\<open>def\<close>
  statements, lines 22-653), in source order. The statements of lines 491-519, headed
  by the string \<^verbatim>\<open>"""Move project to rejected database"""\<close>, stand after the last
  \<^verbatim>\<open>return\<close> of \<^verbatim>\<open>open_project\<close>, inside its body: no \<^verbatim>\<open>def\<close> line
  introduces them, they bind no name and are never executed.
\<close>

definition MusicTracker_methods :: "string list" where
  "MusicTracker_methods =
     [''__init__'', ''setup_database'', ''detect_daw_projects'', ''_should_skip_file'',
      ''_analyze_project_file'', ''add_directory'', ''list_refined_projects'',
      ''show_project_details'', ''run_analytics'', ''refine_project'', ''open_project'',
      ''interactive_review'', ''_display_project_details'', ''_interactive_refine'',
      ''stats'']"

text \<open>Looking a method up on an instance: \<^verbatim>\<open>AttributeError\<close> for a name the class
  does not bind.\<close>

definition getattr_MusicTracker :: "string \<Rightarrow> exn + string" where
  "getattr_MusicTracker attr =
     (if attr \<in> set MusicTracker_methods then Inr attr else Inl (AttributeError attr))"

text \<open>
  The \<^verbatim>\<open>reject\<close> command of \<^verbatim>\<open>main\<close> (lines 798-799):
  \<^verbatim>\<open>tracker.reject_project(args.id, args.reason)\<close>. Evaluating the attribute comes
  first; its exception ends the command before any statement reads or writes the store.
  (The second branch is the call of a bound method; the class binds none of this name.
  The other mention of the name, line 562 of \<^verbatim>\<open>interactive_review\<close>, is not
  reached: that method raises at its first statement, line 523, on the name
  \<^verbatim>\<open>list_raw_projects\<close>, which the class does not bind either.)
\<close>

definition main_reject :: "db \<Rightarrow> int \<Rightarrow> string \<Rightarrow> exn + db" where
  "main_reject d raw_id reason =
     (case getattr_MusicTracker ''reject_project'' of
        Inl x \<Rightarrow> Inl x
      | Inr bound \<Rightarrow> Inr d)"

text \<open>
  The database files the commands of this program produce from a new one:
  \<^verbatim>\<open>add\<close> and \<^verbatim>\<open>refine\<close> are the commands that write.
\<close>

inductive reachable :: "db \<Rightarrow> bool" where
  reachable_new: "reachable setup_database"
| reachable_add: "reachable d \<Longrightarrow> reachable (fst (add_directory e today directory d))"
| reachable_refine: "reachable d \<Longrightarrow> reachable (fst (refine_project e d today raw_id md))"

text \<open>The paths held in \<^verbatim>\<open>raw_projects\<close>.\<close>

definition stored_paths :: "db \<Rightarrow> string set" where
  "stored_paths d = project_file_path ` set (raw_projects d)"

subsection \<open>A sample directory tree\<close>

text \<open>
  The tree \<^verbatim>\<open>/root\<close> used to run the definitions: a Studio One project in its
  folder (\<^verbatim>\<open>Song/Song.song\<close> beside \<^verbatim>\<open>Song.wav\<close>, a hidden file and a
  subdirectory), three FL Studio files of which \<^verbatim>\<open>Broken.flp\<close> is a symbolic link
  to a file that is not there, a Logic Pro project beside a file of the same stem
  (\<^verbatim>\<open>Mix/Tune.logicx\<close>) and one standing alone (\<^verbatim>\<open>Solo.logicx\<close>). Every other
  file has 3,145,728 bytes. The console is strictly UTF-8.
\<close>

definition ex_date :: date where
  "ex_date = Date 2024 5 25"

definition ex_root :: path where
  "ex_root = Path ''/'' [''root'']"

definition song_file :: path where
  "song_file = Path ''/'' [''root'', ''Song'', ''Song.song'']"

definition track_file :: path where
  "track_file = Path ''/'' [''root'', ''Track.flp'']"

definition broken_file :: path where
  "broken_file = Path ''/'' [''root'', ''Broken.flp'']"

definition demo_file :: path where
  "demo_file = Path ''/'' [''root'', ''Demo.flp'']"

definition tune_file :: path where
  "tune_file = Path ''/'' [''root'', ''Mix'', ''Tune.logicx'']"

definition solo_file :: path where
  "solo_file = Path ''/'' [''root'', ''Solo.logicx'']"

definition ex_stat :: stat_result where
  "ex_stat = \<lparr> st_size = 3145728, st_birthtime = None, st_ctime = 0, st_mtime = 0 \<rparr>"

definition ex_env :: env where
  "ex_env =
     \<lparr> stat = (\<lambda>p. if p = broken_file then Inl (OSError ''No such file or directory'')
                     else Inr ex_stat),
       iterdir = (\<lambda>p.
         if p = Path ''/'' [''root'', ''Song'']
         then Inr [''Song.song'', ''Song.wav'', ''.DS_Store'', ''Audio'']
         else if p = Path ''/'' [''root'', ''Mix'']
         then Inr [''Tune.logicx'', ''Tune.wav'']
         else if p = ex_root
         then Inr [''Broken.flp'', ''Demo.flp'', ''Mix'', ''Solo.logicx'', ''Song'',
                   ''Track.flp'']
         else Inl (OSError ''Not a directory'')),
       is_file = (\<lambda>p. Inr (name p \<notin> set [''Audio'', ''Mix'', ''Song''])),
       exists = (\<lambda>p. Inr True),
       rglob = (\<lambda>d pat.
         if d \<noteq> ex_root then Inr []
         else if pat = ''*.flp'' then Inr [track_file, broken_file, demo_file]
         else if pat = ''*.logicx'' then Inr [tune_file, solo_file]
         else if pat = ''*.song'' then Inr [song_file]
         else Inr []),
       fromtimestamp = (\<lambda>t. Inr ex_date),
       stdout_accepts = utf8_ok \<rparr>"

text \<open>A view of the same tree in which the search finds only the Studio One project.\<close>

definition song_env :: env where
  "song_env =
     ex_env\<lparr> rglob := (\<lambda>d pat. if d = ex_root \<and> pat = ''*.song'' then Inr [song_file]
                                else Inr []) \<rparr>"

text \<open>
  A tree with three FL Studio files. The name of the second is the Latin-1 text
  \<^verbatim>\<open>Caf\<close>, byte E9, \<^verbatim>\<open>.flp\<close>, which is not UTF-8, and it is a symbolic link
  to a file that is not there: the search yields it, and \<^verbatim>\<open>stat\<close> raises
  \<^verbatim>\<open>FileNotFoundError\<close>.
\<close>

definition cafe_file :: path where
  "cafe_file = Path ''/'' [''root'', ''Caf'' @ [CHR 0xE9] @ ''.flp'']"

definition cafe_env :: env where
  "cafe_env =
     ex_env\<lparr> stat := (\<lambda>p. if p = cafe_file then Inl (OSError ''No such file or directory'')
                              else Inr ex_stat),
              rglob := (\<lambda>d pat. if d = ex_root \<and> pat = ''*.flp''
                                then Inr [track_file, cafe_file, demo_file]
                                else Inr []) \<rparr>"

text \<open>A tree whose files have 9,007,199,254,756,721 bytes, which is \<open>2 ^ 53 + 15729\<close>.\<close>

definition big_stat :: stat_result where
  "big_stat =
     \<lparr> st_size = 9007199254756721, st_birthtime = None, st_ctime = 0, st_mtime = 0 \<rparr>"

definition big_env :: env where
  "big_env = ex_env\<lparr> stat := (\<lambda>p. Inr big_stat) \<rparr>"

text \<open>The rows the resolver yields for \<^verbatim>\<open>Song.song\<close> and \<^verbatim>\<open>Track.flp\<close>.\<close>

definition song_info :: project_info where
  "song_info =
     \<lparr> project_file_path = ''/root/Song/Song.song'',
       project_folder_path = Some ''/root/Song'',
       daw_type = ''Studio One'',
       detected_title = ''Song'',
       file_size_mb = 3,
       date_created = ex_date,
       date_modified = ex_date,
       additional_files = Some [''Song.wav''] \<rparr>"

definition track_info :: project_info where
  "track_info =
     \<lparr> project_file_path = ''/root/Track.flp'',
       project_folder_path = None,
       daw_type = ''FL Studio'',
       detected_title = ''Track'',
       file_size_mb = 3,
       date_created = ex_date,
       date_modified = ex_date,
       additional_files = None \<rparr>"

definition demo_info :: project_info where
  "demo_info =
     \<lparr> project_file_path = ''/root/Demo.flp'',
       project_folder_path = None,
       daw_type = ''FL Studio'',
       detected_title = ''Demo'',
       file_size_mb = 3,
       date_created = ex_date,
       date_modified = ex_date,
       additional_files = None \<rparr>"

text \<open>A store holding \<^verbatim>\<open>Song.song\<close> as discovered record 1.\<close>

definition song_row :: raw_project where
  "song_row =
     \<lparr> project_file_path = ''/root/Song/Song.song'',
       project_folder_path = Some ''/root/Song'',
       daw_type = ''Studio One'',
       detected_title = ''Song'',
       file_size_mb = 3,
       date_created = ex_date,
       date_modified = ex_date,
       additional_files = Some [''Song.wav''],
       rowid = 1,
       date_discovered = ex_date,
       raw_notes = None \<rparr>"

definition song_store :: db where
  "song_store = \<lparr> raw_projects = [song_row], refined_projects = [], rejected_projects = [] \<rparr>"

text \<open>A call of \<^verbatim>\<open>refine_project\<close> with no keyword argument.\<close>

definition no_metadata :: metadata where
  "no_metadata =
     \<lparr> md_title = None, md_description = None, md_genre = None, md_bpm = None,
       md_key_signature = None, md_year = None, md_status = None, md_rating = None,
       md_tags = None, md_collaboration = None \<rparr>"

text \<open>The command line \<^verbatim>\<open>refine 1 --rating 0\<close>.\<close>

definition rating_zero_args :: refine_args where
  "rating_zero_args =
     \<lparr> arg_id = 1, arg_title = None, arg_description = None, arg_genre = None,
       arg_bpm = None, arg_key = None, arg_status = ''complete'', arg_rating = Some 0,
       arg_tags = None \<rparr>"

text \<open>The store after record 1 is promoted with the rating 7.\<close>

definition rated_store :: db where
  "rated_store = fst (refine_project ex_env song_store ex_date 1 (no_metadata\<lparr> md_rating := Some 7 \<rparr>))"


subsection \<open>Properties of the string and path functions\<close>

lemma startswith_iff: "startswith s p \<longleftrightarrow> prefix p s"
  by (induction s p rule: startswith.induct) auto

lemma str_in_iff: "str_in p s \<longleftrightarrow> sublist p s"
proof (induction s)
  case Nil
  then show ?case by auto
next
  case (Cons c cs)
  then show ?case
    by (cases p) (auto simp: startswith_iff sublist_Cons_right)
qed

text \<open>
  What the classifier computes: a path is skipped when it is noise as the specification
  words it, or when the file's own name contains one of the directory markers.
\<close>

lemma parts_parent_name:
  "names p \<noteq> [] \<Longrightarrow> parts p = parts (parent p) @ [name p]"
  by (simp add: parts_def parent_def name_def)

lemma skip_patterns_nonempty: "m \<in> set skip_patterns \<Longrightarrow> \<not> str_in m []"
  by (auto simp: skip_patterns_def)

lemma should_skip_file_characterised:
  "should_skip_file p \<longleftrightarrow>
     spec_is_noise p \<or> (\<exists>m \<in> set skip_patterns. str_in m (lower (name p)))"
proof (cases "names p = []")
  case True
  then have "parent p = p" "name p = []"
    by (cases p; simp add: parent_def name_def)+
  then show ?thesis
    using skip_patterns_nonempty
    by (auto simp: should_skip_file_def spec_is_noise_def ancestor_names_def)
next
  case False
  from parts_parent_name[OF False] show ?thesis
    by (auto simp: should_skip_file_def spec_is_noise_def ancestor_names_def)
qed

subsection \<open>Properties of binding, looking up and rounding\<close>

lemma bind_param_not_integrity: "bind_param v = Some x \<Longrightarrow> x \<noteq> IntegrityError t"
  by (cases v) (auto split: if_splits)

lemma bind_parameters_not_integrity: "bind_parameters vs = Some x \<Longrightarrow> x \<noteq> IntegrityError t"
  by (induction vs) (auto split: option.splits dest: bind_param_not_integrity)

lemma bind_parameters_int64:
  "bind_parameters vs = None \<Longrightarrow> Integer_param i \<in> set vs \<Longrightarrow> int64 i"
  by (induction vs) (auto split: option.splits if_splits)

lemma digit_chars_nth: "k < 10 \<Longrightarrow> digit_chars ! k \<in> set digit_chars"
  by (rule nth_mem) (simp add: digit_chars_def)

lemma str_nat_digits: "list_all (\<lambda>c. c \<in> set digit_chars) (str_nat n) \<and> str_nat n \<noteq> []"
proof (induction n rule: str_nat.induct)
  case (1 n)
  show ?case
  proof (cases "n < 10")
    case True
    then show ?thesis using digit_chars_nth[of n] by (subst str_nat.simps, subst (2) str_nat.simps) simp
  next
    case False
    then show ?thesis using 1 digit_chars_nth[of "n mod 10"]
      by (subst str_nat.simps, subst (2) str_nat.simps) simp
  qed
qed

lemma isdigit_str_int: "0 \<le> i \<Longrightarrow> isdigit (str_int i)"
  using str_nat_digits[of "nat i"] by (simp add: isdigit_def str_int_def)

lemma not_isdigit_neg: "i < 0 \<Longrightarrow> \<not> isdigit (str_int i)"
  by (simp add: isdigit_def str_int_def digit_chars_def)

lemma show_by_rowid:
  assumes "0 \<le> raw_id" and "int64 raw_id"
    and "find (\<lambda>r. rowid r = raw_id) (raw_projects d) = Some r"
  shows "show_project_details d raw_id = Inr (Some (Raw_details r))"
  using assms isdigit_str_int[of raw_id]
  by (simp add: show_project_details_def)

lemma show_beyond_int64:
  assumes "0 \<le> raw_id" and "\<not> int64 raw_id"
  shows "show_project_details d raw_id =
     Inl (OverflowError ''Python int too large to convert to SQLite INTEGER'')"
  using assms isdigit_str_int[of raw_id]
  by (simp add: show_project_details_def)

lemma show_returns:
  assumes "raw_id < 0 \<or> int64 raw_id"
  shows "\<exists>r. show_project_details d raw_id = Inr r"
proof (cases "raw_id < 0")
  case True
  then show ?thesis using not_isdigit_neg[of raw_id]
    by (simp add: show_project_details_def Let_def split: option.splits)
next
  case False
  with assms have "int64 raw_id" "0 \<le> raw_id" by auto
  then show ?thesis using isdigit_str_int[of raw_id]
    by (simp add: show_project_details_def split: option.splits)
qed

lemma round_half_even_bounds:
  "\<bar>of_int (round_half_even x) - x\<bar> \<le> 1 / 2"
proof -
  have "of_int \<lfloor>x\<rfloor> \<le> x" "x < of_int \<lfloor>x\<rfloor> + 1" by linarith+
  then show ?thesis
    by (auto simp: round_half_even_def Let_def abs_le_iff)
qed

lemma round2_bounds: "\<bar>round2 x - x\<bar> \<le> 1 / 200"
proof -
  have "\<bar>of_int (round_half_even (x * 100)) - x * 100\<bar> \<le> 1 / 2"
    by (rule round_half_even_bounds)
  then show ?thesis
    by (simp add: round2_def abs_le_iff field_simps)
qed

lemma round_half_even_of_int: "round_half_even (of_int k) = k"
  by (simp add: round_half_even_def)

lemma round_half_even_below:
  assumes "of_int k \<le> x" and "x < of_int k + 1 / 2"
  shows "round_half_even x = k"
proof -
  from assms have "\<lfloor>x\<rfloor> = k" by (intro floor_unique) auto
  with assms show ?thesis by (simp add: round_half_even_def)
qed

lemma round_half_even_above:
  assumes "of_int k + 1 / 2 < x" and "x < of_int k + 1"
  shows "round_half_even x = k + 1"
proof -
  from assms have "\<lfloor>x\<rfloor> = k" by (intro floor_unique) auto
  with assms show ?thesis by (simp add: round_half_even_def)
qed

text \<open>Below \<open>2 ^ 53\<close> bytes the quotient of line 178 is exact.\<close>

lemma halvings_small: "n < 2 ^ 53 \<Longrightarrow> halvings n = 0"
  by (subst halvings.simps) simp

lemma float_of_nat_small: "n < 2 ^ 53 \<Longrightarrow> float_of_nat n = of_nat n"
  using round_half_even_of_int[of "int n"]
  by (simp add: float_of_nat_def halvings_small)

lemma size_mb_small: "n < 2 ^ 53 \<Longrightarrow> size_mb n = of_nat n / 1048576"
  by (simp add: size_mb_def float_of_nat_small)

lemma size_mb_big: "size_mb 9007199254756721 = 9007199254756720 / 1048576"
proof -
  have h: "halvings 9007199254756721 = 1"
    by (subst halvings.simps, subst halvings.simps) simp
  have f: "\<lfloor>(9007199254756721::rat) / 2\<rfloor> = 4503599627378360"
    by (rule floor_unique) simp_all
  have "round_half_even (9007199254756721 / 2) = 4503599627378360"
    by (simp add: round_half_even_def f)
  then show ?thesis
    by (simp add: size_mb_def float_of_nat_def h)
qed


subsection \<open>Properties of scanning and inserting\<close>

lemma insert_raw_frame:
  "insert_raw d today p = Inr d' \<Longrightarrow>
     refined_projects d' = refined_projects d \<and> rejected_projects d' = rejected_projects d"
  by (auto simp: insert_raw_def split: if_splits option.splits)

lemma insert_raw_appends:
  "insert_raw d today p = Inr d' \<Longrightarrow> \<exists>row. raw_projects d' = raw_projects d @ [row]"
  by (auto simp: insert_raw_def split: if_splits option.splits)

lemma insert_raw_unbound:
  "bind_parameters (raw_parameters p) = Some x \<Longrightarrow> insert_raw d today p = Inl x"
  by (simp add: insert_raw_def)

lemma insert_raw_known:
  "bind_parameters (raw_parameters p) = None \<Longrightarrow> project_file_path p \<in> stored_paths d \<Longrightarrow>
     insert_raw d today p =
       Inl (IntegrityError ''UNIQUE constraint failed: raw_projects.project_file_path'')"
  by (auto simp: insert_raw_def stored_paths_def)

lemma insert_raw_new:
  "bind_parameters (raw_parameters p) = None \<Longrightarrow> project_file_path p \<notin> stored_paths d \<Longrightarrow>
     \<exists>d'. insert_raw d today p = Inr d' \<and>
          stored_paths d' = insert (project_file_path p) (stored_paths d) \<and>
          map project_file_path (raw_projects d') =
            map project_file_path (raw_projects d) @ [project_file_path p]"
  by (auto simp: insert_raw_def stored_paths_def image_iff)

text \<open>One turn of the loop of lines 249-270, by what the statement meets.\<close>

lemma insert_projects_unbound:
  "bind_parameters (raw_parameters p) = Some x \<Longrightarrow>
     insert_projects e today (p # ps) d n = (Inl x, [])"
  by (cases x) (auto simp: insert_raw_unbound dest: bind_parameters_not_integrity)

lemma insert_projects_stored:
  "bind_parameters (raw_parameters p) = None \<Longrightarrow> project_file_path p \<in> stored_paths d \<Longrightarrow>
     insert_projects e today (p # ps) d n =
       (if print_ok e (Already_exists (detected_title p))
        then (fst (insert_projects e today ps d n),
              Already_exists (detected_title p) # snd (insert_projects e today ps d n))
        else (Inl print_error, []))"
  by (simp add: insert_raw_known split: prod.splits)

lemma insert_projects_fresh:
  "insert_raw d today p = Inr d' \<Longrightarrow>
     insert_projects e today (p # ps) d n =
       (if print_ok e (Added (daw_type p) (detected_title p))
        then (fst (insert_projects e today ps d' (n + 1)),
              Added (daw_type p) (detected_title p) # snd (insert_projects e today ps d' (n + 1)))
        else (Inl print_error, []))"
  by (simp split: prod.splits)

declare insert_projects.simps(2) [simp del]

lemma print_ok_added:
  "print_ok e (Added daw title) \<Longrightarrow> print_ok e (Already_exists title)"
  by (simp add: print_ok_def)

lemma insert_projects_frame:
  "insert_projects e today ps d n = (Inr (d', n'), out) \<Longrightarrow>
     refined_projects d' = refined_projects d \<and> rejected_projects d' = rejected_projects d"
proof (induction ps arbitrary: d n d' n' out)
  case Nil
  then show ?case by simp
next
  case (Cons p ps)
  show ?case
  proof (cases "bind_parameters (raw_parameters p)")
    case (Some x)
    from Cons.prems insert_projects_unbound[OF Some] show ?thesis by simp
  next
    case None
    show ?thesis
    proof (cases "project_file_path p \<in> stored_paths d")
      case True
      from Cons.prems have "fst (insert_projects e today ps d n) = Inr (d', n')"
        by (simp add: insert_projects_stored[OF None True] split: if_splits)
      then have "insert_projects e today ps d n = (Inr (d', n'), snd (insert_projects e today ps d n))"
        by (cases "insert_projects e today ps d n") simp
      then show ?thesis by (rule Cons.IH)
    next
      case False
      from insert_raw_new[OF None False, of today] obtain d1 where
        d1: "insert_raw d today p = Inr d1" by blast
      from Cons.prems have "fst (insert_projects e today ps d1 (n + 1)) = Inr (d', n')"
        by (simp add: insert_projects_fresh[OF d1] split: if_splits)
      then have "insert_projects e today ps d1 (n + 1) =
          (Inr (d', n'), snd (insert_projects e today ps d1 (n + 1)))"
        by (cases "insert_projects e today ps d1 (n + 1)") simp
      then have "refined_projects d' = refined_projects d1 \<and>
          rejected_projects d' = rejected_projects d1"
        by (rule Cons.IH)
      with insert_raw_frame[OF d1] show ?thesis by simp
    qed
  qed
qed

lemma insert_projects_appends:
  "insert_projects e today ps d n = (Inr (d', n'), out) \<Longrightarrow>
     \<exists>new. raw_projects d' = raw_projects d @ new \<and> n' = n + length new"
proof (induction ps arbitrary: d n d' n' out)
  case Nil
  then show ?case by simp
next
  case (Cons p ps)
  show ?case
  proof (cases "bind_parameters (raw_parameters p)")
    case (Some x)
    from Cons.prems insert_projects_unbound[OF Some] show ?thesis by simp
  next
    case None
    show ?thesis
    proof (cases "project_file_path p \<in> stored_paths d")
      case True
      from Cons.prems have "fst (insert_projects e today ps d n) = Inr (d', n')"
        by (simp add: insert_projects_stored[OF None True] split: if_splits)
      then have "insert_projects e today ps d n = (Inr (d', n'), snd (insert_projects e today ps d n))"
        by (cases "insert_projects e today ps d n") simp
      then show ?thesis by (rule Cons.IH)
    next
      case False
      from insert_raw_new[OF None False, of today] obtain d1 where
        d1: "insert_raw d today p = Inr d1" by blast
      from Cons.prems have "fst (insert_projects e today ps d1 (n + 1)) = Inr (d', n')"
        by (simp add: insert_projects_fresh[OF d1] split: if_splits)
      then have "insert_projects e today ps d1 (n + 1) =
          (Inr (d', n'), snd (insert_projects e today ps d1 (n + 1)))"
        by (cases "insert_projects e today ps d1 (n + 1)") simp
      from Cons.IH[OF this] obtain new where
        n: "raw_projects d' = raw_projects d1 @ new" "n' = n + 1 + length new" by blast
      from insert_raw_appends[OF d1] obtain row where "raw_projects d1 = raw_projects d @ [row]"
        by blast
      with n have "raw_projects d' = raw_projects d @ (row # new) \<and> n' = n + length (row # new)"
        by simp
      then show ?thesis by blast
    qed
  qed
qed

text \<open>A run of the loop that returns has bound and printed every candidate.\<close>

lemma insert_projects_returns:
  "insert_projects e today ps d n = (Inr (d', n'), out) \<Longrightarrow>
     (\<forall>p \<in> set ps. bind_parameters (raw_parameters p) = None \<and>
                    print_ok e (Already_exists (detected_title p))) \<and>
     stored_paths d' = stored_paths d \<union> project_file_path ` set ps \<and>
     n' = n + card (project_file_path ` set ps - stored_paths d)"
proof (induction ps arbitrary: d n d' n' out)
  case Nil
  then show ?case by simp
next
  case (Cons p ps)
  show ?case
  proof (cases "bind_parameters (raw_parameters p)")
    case (Some x)
    from Cons.prems insert_projects_unbound[OF Some] show ?thesis by simp
  next
    case None
    show ?thesis
    proof (cases "project_file_path p \<in> stored_paths d")
      case True
      from Cons.prems have pr: "print_ok e (Already_exists (detected_title p))"
        and "fst (insert_projects e today ps d n) = Inr (d', n')"
        by (simp_all add: insert_projects_stored[OF None True] split: if_splits)
      then have "insert_projects e today ps d n = (Inr (d', n'), snd (insert_projects e today ps d n))"
        by (cases "insert_projects e today ps d n") simp
      from Cons.IH[OF this] None pr True show ?thesis
        by (auto simp: insert_absorb Diff_insert_absorb intro: arg_cong[where f=card])
    next
      case False
      from insert_raw_new[OF None False, of today] obtain d1 where
        d1: "insert_raw d today p = Inr d1"
        and s1: "stored_paths d1 = insert (project_file_path p) (stored_paths d)" by blast
      from Cons.prems have pr: "print_ok e (Added (daw_type p) (detected_title p))"
        and "fst (insert_projects e today ps d1 (n + 1)) = Inr (d', n')"
        by (simp_all add: insert_projects_fresh[OF d1] split: if_splits)
      then have "insert_projects e today ps d1 (n + 1) =
          (Inr (d', n'), snd (insert_projects e today ps d1 (n + 1)))"
        by (cases "insert_projects e today ps d1 (n + 1)") simp
      from Cons.IH[OF this] have
        a: "stored_paths d' = stored_paths d1 \<union> project_file_path ` set ps"
        and b: "n' = n + 1 + card (project_file_path ` set ps - stored_paths d1)"
        and c: "\<forall>p \<in> set ps. bind_parameters (raw_parameters p) = None \<and>
                    print_ok e (Already_exists (detected_title p))" by auto
      have eq: "project_file_path ` set (p # ps) - stored_paths d =
            insert (project_file_path p) (project_file_path ` set ps - stored_paths d1)"
        using False s1 by auto
      have "card (project_file_path ` set (p # ps) - stored_paths d) =
            Suc (card (project_file_path ` set ps - stored_paths d1))"
        unfolding eq using s1 by (subst card_insert_disjoint) auto
      with a b c s1 None print_ok_added[OF pr] show ?thesis by auto
    qed
  qed
qed

lemma insert_projects_known:
  "\<forall>p \<in> set ps. project_file_path p \<in> stored_paths d \<and>
                 bind_parameters (raw_parameters p) = None \<and>
                 print_ok e (Already_exists (detected_title p)) \<Longrightarrow>
     insert_projects e today ps d n =
       (Inr (d, n), map (\<lambda>p. Already_exists (detected_title p)) ps)"
proof (induction ps)
  case Nil
  then show ?case by simp
next
  case (Cons p ps)
  then have "insert_projects e today ps d n =
       (Inr (d, n), map (\<lambda>p. Already_exists (detected_title p)) ps)" by simp
  with Cons.prems show ?case by (simp add: insert_projects_stored)
qed

text \<open>
  Whether the loop raises, and what it has printed by then, depends on the store only
  through the paths it holds, and not on the date.
\<close>

lemma insert_projects_raises:
  "map project_file_path (raw_projects d) = map project_file_path (raw_projects d') \<Longrightarrow>
     insert_projects e today ps d n = (Inl x, out) \<Longrightarrow>
     insert_projects e today' ps d' n = (Inl x, out)"
proof (induction ps arbitrary: d d' n out)
  case Nil
  then show ?case by simp
next
  case (Cons p ps)
  from Cons.prems(1) have sp: "stored_paths d = stored_paths d'"
    by (metis stored_paths_def set_map)
  show ?case
  proof (cases "bind_parameters (raw_parameters p)")
    case (Some y)
    from Cons.prems(2) insert_projects_unbound[OF Some] show ?thesis by simp
  next
    case None
    show ?thesis
    proof (cases "project_file_path p \<in> stored_paths d")
      case True
      with sp have True': "project_file_path p \<in> stored_paths d'" by simp
      show ?thesis
      proof (cases "print_ok e (Already_exists (detected_title p))")
        case False
        with Cons.prems(2) show ?thesis
          by (simp add: insert_projects_stored[OF None True] insert_projects_stored[OF None True'])
      next
        case pr: True
        obtain r o1 where r: "insert_projects e today ps d n = (r, o1)"
          by (cases "insert_projects e today ps d n")
        with Cons.prems(2) pr have "r = Inl x" "out = Already_exists (detected_title p) # o1"
          by (simp_all add: insert_projects_stored[OF None True])
        with r Cons.IH[OF Cons.prems(1), of n o1]
        have "insert_projects e today' ps d' n = (Inl x, o1)" by simp
        with pr \<open>out = Already_exists (detected_title p) # o1\<close> show ?thesis
          by (simp add: insert_projects_stored[OF None True'])
      qed
    next
      case False
      with sp have False': "project_file_path p \<notin> stored_paths d'" by simp
      from insert_raw_new[OF None False, of today] obtain d1 where
        d1: "insert_raw d today p = Inr d1"
        and m1: "map project_file_path (raw_projects d1) =
            map project_file_path (raw_projects d) @ [project_file_path p]" by blast
      from insert_raw_new[OF None False', of today'] obtain d1' where
        d1': "insert_raw d' today' p = Inr d1'"
        and m1': "map project_file_path (raw_projects d1') =
            map project_file_path (raw_projects d') @ [project_file_path p]" by blast
      from m1 m1' Cons.prems(1) have rel: "map project_file_path (raw_projects d1) =
          map project_file_path (raw_projects d1')" by simp
      show ?thesis
      proof (cases "print_ok e (Added (daw_type p) (detected_title p))")
        case False
        with Cons.prems(2) show ?thesis
          by (simp add: insert_projects_fresh[OF d1] insert_projects_fresh[OF d1'])
      next
        case pr: True
        obtain r o1 where r: "insert_projects e today ps d1 (n + 1) = (r, o1)"
          by (cases "insert_projects e today ps d1 (n + 1)")
        with Cons.prems(2) pr have
          "r = Inl x" "out = Added (daw_type p) (detected_title p) # o1"
          by (simp_all add: insert_projects_fresh[OF d1])
        with r Cons.IH[OF rel, of "n + 1" o1]
        have "insert_projects e today' ps d1' (n + 1) = (Inl x, o1)" by simp
        with pr \<open>out = Added (daw_type p) (detected_title p) # o1\<close> show ?thesis
          by (simp add: insert_projects_fresh[OF d1'])
      qed
    qed
  qed
qed

lemma add_directory_frame:
  "refined_projects (fst (add_directory e today directory d)) = refined_projects d \<and>
   rejected_projects (fst (add_directory e today directory d)) = rejected_projects d"
proof (cases "detect_daw_projects e directory")
  case (Pair r out)
  show ?thesis
  proof (cases r)
    case (Inl x)
    with Pair show ?thesis by (simp add: add_directory_def)
  next
    case (Inr projects)
    show ?thesis
    proof (cases "projects = []")
      case True
      with Pair Inr show ?thesis by (simp add: add_directory_def)
    next
      case False
      obtain r' out' where r: "insert_projects e today projects d 0 = (r', out')"
        by (cases "insert_projects e today projects d 0")
      show ?thesis
      proof (cases r')
        case (Inl x)
        with Pair Inr False r show ?thesis by (simp add: add_directory_def)
      next
        case (Inr res)
        obtain d' n' where res: "res = (d', n')" by (cases res)
        from insert_projects_frame[OF r[unfolded Inr res]] Pair \<open>r = Inr projects\<close> False r Inr res
        show ?thesis by (simp add: add_directory_def)
      qed
    qed
  qed
qed


subsection \<open>The sample tree, evaluated\<close>

lemma ex_not_skipped:
  "\<not> should_skip_file song_file" "\<not> should_skip_file track_file"
  "\<not> should_skip_file broken_file" "\<not> should_skip_file demo_file"
  "\<not> should_skip_file tune_file" "\<not> should_skip_file solo_file"
  "\<not> should_skip_file cafe_file"
  by code_simp+

lemma ex_size_mb: "size_mb 3145728 = 3"
  by (simp add: size_mb_small)

lemmas path_defs = parts_def name_def parent_def child_def stem_def str_path_def
lemmas resolver_defs = analyze_project_file_def analyze_body_def creation_date_def
  folder_and_title_def logic_in_folder_def any_sibling_startswith_def find_additional_files_def
  round2_def round_half_even_def ex_size_mb
lemmas ex_file_defs = ex_date_def ex_root_def song_file_def track_file_def broken_file_def
  demo_file_def tune_file_def solo_file_def ex_stat_def

lemma ex_analyze_song:
  "analyze_project_file ex_env song_file ''Studio One'' ''.song'' = (Inr (Some song_info), [])"
  by (simp add: ex_env_def ex_file_defs path_defs resolver_defs song_info_def)

lemma ex_analyze_track:
  "analyze_project_file ex_env track_file ''FL Studio'' ''.flp'' = (Inr (Some track_info), [])"
  by (simp add: ex_env_def ex_file_defs path_defs resolver_defs track_info_def)

lemma ex_analyze_demo:
  "analyze_project_file ex_env demo_file ''FL Studio'' ''.flp'' = (Inr (Some demo_info), [])"
  by (simp add: ex_env_def ex_file_defs path_defs resolver_defs demo_info_def)

lemma ex_body_broken:
  "analyze_body ex_env broken_file ''FL Studio'' ''.flp'' = Inl (OSError ''No such file or directory'')"
  by (simp add: ex_env_def analyze_body_def)

lemma ex_print_broken:
  "print_ok ex_env (Error_analyzing broken_file (OSError ''No such file or directory''))"
  by code_simp

lemma ex_analyze_broken:
  "analyze_project_file ex_env broken_file ''FL Studio'' ''.flp'' =
     (Inr None, [Error_analyzing broken_file (OSError ''No such file or directory'')])"
  by (simp add: analyze_project_file_def ex_body_broken ex_print_broken)

lemma ex_scan_flp:
  "scan_matches ex_env ''FL Studio'' ''.flp'' [track_file, broken_file, demo_file] =
     (Inr [track_info, demo_info],
      [Error_analyzing broken_file (OSError ''No such file or directory'')])"
  by (simp add: ex_not_skipped ex_analyze_track ex_analyze_demo ex_analyze_broken)

lemma song_env_analyze:
  "analyze_project_file song_env song_file ''Studio One'' ''.song'' = (Inr (Some song_info), [])"
  by (simp add: song_env_def ex_env_def ex_file_defs path_defs resolver_defs song_info_def)

lemma song_env_print:
  "print_ok song_env (Scanning ex_root)"
  "print_ok song_env (Added ''Studio One'' ''Song'')"
  "print_ok song_env (Already_exists ''Song'')"
  "print_ok ex_env (Refined ''Song'')"
  by code_simp+

lemma song_info_binds: "bind_parameters (raw_parameters song_info) = None"
  by code_simp

lemma song_env_detect:
  "detect_daw_projects song_env ex_root = (Inr [song_info], [Scanning ex_root])"
proof -
  have r: "rglob song_env ex_root ''*.song'' = Inr [song_file]"
    "rglob song_env ex_root ''*.flp'' = Inr []" "rglob song_env ex_root ''*.logicx'' = Inr []"
    "rglob song_env ex_root ''*.bwproject'' = Inr []"
    by (simp_all add: song_env_def)
  have e: "exists song_env ex_root = Inr True" by (simp add: song_env_def ex_env_def)
  show ?thesis
    by (simp add: detect_daw_projects_def e daw_patterns_def r ex_not_skipped song_env_analyze
        song_env_print)
qed

lemma song_env_add:
  "add_directory song_env ex_date ex_root setup_database =
     (song_store, Inr 1, [Scanning ex_root, Added ''Studio One'' ''Song'', Added_new 1])"
proof -
  have n: "project_file_path song_info \<notin> stored_paths setup_database"
    by (simp add: stored_paths_def setup_database_def)
  have i: "insert_raw setup_database ex_date song_info = Inr song_store"
    by (simp add: insert_raw_def song_info_binds)
       (simp add: setup_database_def song_store_def song_row_def song_info_def next_rowid_def)
  have t: "daw_type song_info = ''Studio One''" "detected_title song_info = ''Song''"
    by (simp_all add: song_info_def)
  show ?thesis
    by (simp add: add_directory_def song_env_detect insert_projects_fresh[OF i] t song_env_print)
qed

lemma song_store_reachable: "reachable song_store"
  using reachable_add[OF reachable_new, of song_env ex_date ex_root]
  by (simp add: song_env_add)

text \<open>The tree with the Latin-1 name: the line of the handler cannot be printed.\<close>

lemma cafe_body:
  "analyze_body cafe_env cafe_file ''FL Studio'' ''.flp'' = Inl (OSError ''No such file or directory'')"
  by (simp add: cafe_env_def analyze_body_def)

lemma cafe_print:
  "\<not> print_ok cafe_env (Error_analyzing cafe_file (OSError ''No such file or directory''))"
  "print_ok cafe_env (Scanning ex_root)"
  by code_simp+

lemma cafe_analyze_track:
  "analyze_project_file cafe_env track_file ''FL Studio'' ''.flp'' = (Inr (Some track_info), [])"
  by (simp add: cafe_env_def cafe_file_def ex_env_def ex_file_defs path_defs resolver_defs
      track_info_def)

subsection \<open>Properties of the resolver\<close>

lemma name_child: "name (child p n) = n"
  by (simp add: name_def child_def)

lemma collect_additional_filter:
  "\<forall>n \<in> set entries. is_file e (child folder n) = Inr (regular n) \<Longrightarrow>
     collect_additional e folder project_file entries =
       Inr (filter (\<lambda>n. child folder n \<noteq> project_file \<and> regular n \<and> \<not> startswith n ''.'')
              entries)"
  by (induction entries) (auto simp: Let_def name_child)

lemma analyze_body_stat_error:
  "stat e project_file = Inl x \<Longrightarrow> analyze_body e project_file daw_name extension = Inl x"
  by (simp add: analyze_body_def)


text \<open>
  When the console can print the handler's line, a candidate whose analysis raised adds
  that line and nothing else, and the loop goes on with the candidates after it.
\<close>

lemma analyze_fails_soft:
  "analyze_body e bad daw_name pattern = Inl x \<Longrightarrow> print_ok e (Error_analyzing bad x) \<Longrightarrow>
     analyze_project_file e bad daw_name pattern = (Inr None, [Error_analyzing bad x])"
  by (simp add: analyze_project_file_def)

lemma scan_matches_fails_soft:
  "analyze_body e bad daw_name pattern = Inl x \<Longrightarrow> print_ok e (Error_analyzing bad x) \<Longrightarrow>
     \<not> should_skip_file bad \<Longrightarrow>
     scan_matches e daw_name pattern (bad # after) =
       (fst (scan_matches e daw_name pattern after),
        Error_analyzing bad x # snd (scan_matches e daw_name pattern after))"
  by (simp add: analyze_fails_soft split: prod.splits sum.splits)

subsection \<open>Properties of promotion and of the reachable stores\<close>

lemma refine_insert_frame:
  "refine_insert d today raw_id md x = Inr (d', title) \<Longrightarrow>
     raw_projects d' = raw_projects d \<and> rejected_projects d' = rejected_projects d \<and>
     (\<exists>c. refined_projects d' = refined_projects d @ [c] \<and> rf_rating c = md_rating md \<and>
          (case md_rating md of None \<Rightarrow> True | Some r \<Rightarrow> 1 \<le> r \<and> r \<le> 10))"
  by (cases x) (auto simp: refine_insert_def split: if_splits option.splits)

lemma refine_project_cases:
  obtains (raised) x where "show_project_details d raw_id = Inl x"
      "refine_project e d today raw_id md = (d, Inl x, [])"
    | (missing) "refine_project e d today raw_id md = (d, Inr False, [Raw_project_not_found raw_id])"
    | (failed) rp x where "show_project_details d raw_id = Inr (Some rp)"
      "refine_insert d today raw_id md rp = Inl x"
      "refine_project e d today raw_id md = (d, Inr False, [Error_refining x])"
    | (stored) rp d' title where "show_project_details d raw_id = Inr (Some rp)"
      "refine_insert d today raw_id md rp = Inr (d', title)"
      "fst (refine_project e d today raw_id md) = d'"
      "fst (snd (refine_project e d today raw_id md)) \<noteq> Inr False"
proof (cases "show_project_details d raw_id")
  case (Inl x)
  then show ?thesis using raised by (simp add: refine_project_def)
next
  case (Inr found)
  show ?thesis
  proof (cases found)
    case None
    with Inr show ?thesis using missing by (simp add: refine_project_def)
  next
    case (Some rp)
    show ?thesis
    proof (cases "refine_insert d today raw_id md rp")
      case (Inl x)
      with Inr Some show ?thesis using failed by (simp add: refine_project_def)
    next
      case r: (Inr res)
      obtain d' title where res: "res = (d', title)" by (cases res)
      with Inr Some r show ?thesis using stored[of rp d' title]
        by (simp add: refine_project_def)
    qed
  qed
qed

lemma refine_project_frame:
  "raw_projects (fst (refine_project e d today raw_id md)) = raw_projects d \<and>
   rejected_projects (fst (refine_project e d today raw_id md)) = rejected_projects d"
  by (rule refine_project_cases[where d=d and raw_id=raw_id and e=e and today=today and md=md])
     (auto dest: refine_insert_frame)

lemma refine_project_ratings:
  assumes "\<forall>c \<in> set (refined_projects d). \<forall>x. rf_rating c = Some x \<longrightarrow> 1 \<le> x \<and> x \<le> 10"
  shows "\<forall>c \<in> set (refined_projects (fst (refine_project e d today raw_id md))).
           \<forall>x. rf_rating c = Some x \<longrightarrow> 1 \<le> x \<and> x \<le> 10"
proof (cases rule: refine_project_cases[where d=d and raw_id=raw_id and e=e and today=today and md=md])
  case (stored rp d' title)
  from refine_insert_frame[OF stored(2)] obtain c where
    c: "refined_projects d' = refined_projects d @ [c]" "rf_rating c = md_rating md"
       "case md_rating md of None \<Rightarrow> True | Some r \<Rightarrow> 1 \<le> r \<and> r \<le> 10"
    by blast
  with stored(3) assms show ?thesis by (auto split: option.splits)
qed (use assms in simp_all)

lemma reachable_ratings:
  "reachable d \<Longrightarrow>
     \<forall>c \<in> set (refined_projects d). \<forall>x. rf_rating c = Some x \<longrightarrow> 1 \<le> x \<and> x \<le> 10"
proof (induction rule: reachable.induct)
  case reachable_new
  then show ?case by (simp add: setup_database_def)
next
  case (reachable_add d e today directory)
  then show ?case using add_directory_frame[of e today directory d] by simp
next
  case (reachable_refine d e today raw_id md)
  from reachable_refine.IH show ?case by (rule refine_project_ratings)
qed

lemma reachable_no_rejected: "reachable d \<Longrightarrow> rejected_projects d = []"
proof (induction rule: reachable.induct)
  case reachable_new
  then show ?case by (simp add: setup_database_def)
next
  case (reachable_add d e today directory)
  then show ?case using add_directory_frame[of e today directory d] by simp
next
  case (reachable_refine d e today raw_id md)
  then show ?case using refine_project_frame[of e d today raw_id md] by simp
qed

lemma refine_out_of_range:
  assumes "r < 1 \<or> 10 < r"
  shows "\<exists>x. refine_insert d today raw_id (md\<lparr> md_rating := Some r \<rparr>) rp = Inl x"
  using assms by (cases rp) (auto simp: refine_insert_def split: option.splits)

lemma refine_check_fails:
  assumes "r < 1 \<or> 10 < r"
    and "bind_parameters (refine_parameters raw_id (md\<lparr> md_rating := Some r \<rparr>) row) = None"
  shows "refine_insert d today raw_id (md\<lparr> md_rating := Some r \<rparr>) (Raw_details row) =
     Inl (IntegrityError ''CHECK constraint failed: rating >= 1 AND rating <= 10'')"
  using assms by (auto simp: refine_insert_def)

lemma song_store_show: "show_project_details song_store 1 = Inr (Some (Raw_details song_row))"
  by (rule show_by_rowid) (simp_all add: song_store_def song_row_def int64_def)

lemma song_row_binds:
  "bind_parameters (refine_parameters 1 no_metadata song_row) = None"
  "bind_parameters (refine_parameters 1 (no_metadata\<lparr> md_rating := Some 7 \<rparr>) song_row) = None"
  "bind_parameters (refine_parameters 1 (no_metadata\<lparr> md_rating := Some 11 \<rparr>) song_row) = None"
  "bind_parameters (refine_parameters 1 (no_metadata\<lparr> md_rating := Some 0 \<rparr>) song_row) = None"
  by code_simp+

text \<open>The store after record 1 is promoted with the rating 7, row by row.\<close>

lemma rated_store_rows:
  "rated_store =
     song_store\<lparr> refined_projects :=
         [\<lparr> rf_id = 1, rf_raw_project_id = Some 1, rf_title = ''Song'',
            rf_description = None, rf_genre = None, rf_bpm = None, rf_key_signature = None,
            rf_year = Some 2024, rf_status = ''complete'', rf_rating = Some 7, rf_tags = None,
            rf_collaboration = None, rf_project_file_path = ''/root/Song/Song.song'',
            rf_project_folder_path = Some ''/root/Song'', rf_daw_type = ''Studio One'',
            rf_file_size_mb = 3, rf_date_created = ex_date, rf_date_refined = ex_date \<rparr>] \<rparr>"
proof -
  have e: "refined_projects song_store = []" by (simp add: song_store_def)
  have t: "refine_title (no_metadata\<lparr> md_rating := Some 7 \<rparr>) song_row = ''Song''"
    by (simp add: refine_title_def no_metadata_def song_row_def)
  show ?thesis
    by (simp add: rated_store_def refine_project_def song_store_show refine_insert_def
        song_row_binds t song_env_print e next_rowid_def)
       (simp add: no_metadata_def song_row_def refine_year_def refine_status_def ex_date_def)
qed

lemma rated_store_ratings: "map rf_rating (refined_projects rated_store) = [Some 7]"
  by (simp add: rated_store_rows)

lemma rated_store_reachable: "reachable rated_store"
  using reachable_refine[OF song_store_reachable,
      of ex_env ex_date 1 "no_metadata\<lparr> md_rating := Some 7 \<rparr>"]
  by (simp add: rated_store_def)


lemma getattr_reject_project:
  "getattr_MusicTracker ''reject_project'' = Inl (AttributeError ''reject_project'')"
  by (simp add: getattr_MusicTracker_def MusicTracker_methods_def)

text \<open>
  The refine command drops a rating of 0 before the call, so that the record is promoted
  without a rating.
\<close>

lemma main_refine_rating_zero:
  "main_refine ex_env song_store ex_date rating_zero_args =
     (song_store\<lparr> refined_projects :=
         [\<lparr> rf_id = 1, rf_raw_project_id = Some 1, rf_title = ''Song'',
            rf_description = None, rf_genre = None, rf_bpm = None, rf_key_signature = None,
            rf_year = Some 2024, rf_status = ''complete'', rf_rating = None, rf_tags = None,
            rf_collaboration = None, rf_project_file_path = ''/root/Song/Song.song'',
            rf_project_folder_path = Some ''/root/Song'', rf_daw_type = ''Studio One'',
            rf_file_size_mb = 3, rf_date_created = ex_date, rf_date_refined = ex_date \<rparr>] \<rparr>,
      Inr True, [Refined ''Song''])"
proof -
  have e: "refined_projects song_store = []" by (simp add: song_store_def)
  have m: "\<lparr> md_title = None, md_description = None, md_genre = None, md_bpm = None,
       md_key_signature = None, md_year = None, md_status = Some ''complete'',
       md_rating = None, md_tags = None, md_collaboration = None \<rparr> =
       no_metadata\<lparr> md_status := Some ''complete'' \<rparr>"
    by (simp add: no_metadata_def)
  have b: "bind_parameters
      (refine_parameters 1 (no_metadata\<lparr> md_status := Some ''complete'' \<rparr>) song_row) = None"
    by code_simp
  have t: "refine_title (no_metadata\<lparr> md_status := Some ''complete'' \<rparr>) song_row = ''Song''"
    by (simp add: refine_title_def no_metadata_def song_row_def)
  show ?thesis
    by (simp add: main_refine_def rating_zero_args_def truthy_str_def truthy_int_def m
        refine_project_def song_store_show refine_insert_def b t song_env_print e next_rowid_def)
       (simp add: no_metadata_def song_row_def refine_year_def refine_status_def ex_date_def)
qed


section \<open>The claims of the specification\<close>

subsection \<open>C1: the path classifier\<close>

text \<open>
  C1. The claim reads the directory markers against the ancestor directories only. The
  code's loop over \<^verbatim>\<open>project_file.parts\<close> also meets the file's own name, under the
  comment "Check if any parent directory matches backup patterns": the file
  \<^verbatim>\<open>/music/tempo.flp\<close> has no marker in \<^verbatim>\<open>/\<close> or \<^verbatim>\<open>music\<close> and no file-name
  marker in \<^verbatim>\<open>tempo.flp\<close>, and is skipped because its name contains \<^verbatim>\<open>temp\<close>.
\<close>

theorem should_skip_file_tempo:
  "should_skip_file (Path ''/'' [''music'', ''tempo.flp'']) \<and>
   \<not> spec_is_noise (Path ''/'' [''music'', ''tempo.flp''])"
  by code_simp

subsection \<open>C2: scanning a directory twice\<close>

text \<open>
  C2. Running \<^verbatim>\<open>add_directory\<close> a second time on the same directory, with the
  filesystem and the console answering as before, leaves the database file as the first
  run left it, whether the runs return or raise. When the first run returns a count, the
  second returns the count 0 and prints each candidate as already existing, and the count
  of the first run is the number of candidate paths that were not stored before it. An
  insertion of a candidate whose path is stored, whose values bind and whose title the
  console can print changes nothing, counts nothing and is reported as already existing.
\<close>

theorem rescan_adds_nothing:
  "fst (add_directory e today' directory (fst (add_directory e today directory d))) =
     fst (add_directory e today directory d) \<and>
   (fst (snd (add_directory e today directory d)) = Inr n \<longrightarrow>
      (\<exists>projects out.
         detect_daw_projects e directory = (Inr projects, out) \<and>
         add_directory e today' directory (fst (add_directory e today directory d)) =
           (fst (add_directory e today directory d), Inr 0,
            out @ (if projects = [] then [No_projects_found directory]
                   else map (\<lambda>p. Already_exists (detected_title p)) projects @
                        [Added_new 0])) \<and>
         n = card (project_file_path ` set projects - stored_paths d))) \<and>
   (project_file_path p \<in> stored_paths d \<and> bind_parameters (raw_parameters p) = None \<and>
    print_ok e (Already_exists (detected_title p)) \<longrightarrow>
      insert_projects e today [p] d k = (Inr (d, k), [Already_exists (detected_title p)]))"
proof -
  have known: "project_file_path p \<in> stored_paths d \<and>
      bind_parameters (raw_parameters p) = None \<and>
      print_ok e (Already_exists (detected_title p)) \<longrightarrow>
      insert_projects e today [p] d k = (Inr (d, k), [Already_exists (detected_title p)])"
    by (simp add: insert_projects_stored)
  obtain r out where det: "detect_daw_projects e directory = (r, out)"
    by (cases "detect_daw_projects e directory")
  let ?first = "add_directory e today directory d"
  let ?second = "add_directory e today' directory (fst ?first)"
  have runs: "fst ?second = fst ?first \<and>
      (fst (snd ?first) = Inr n \<longrightarrow>
        (\<exists>projects out.
           detect_daw_projects e directory = (Inr projects, out) \<and>
           ?second =
             (fst ?first, Inr 0,
              out @ (if projects = [] then [No_projects_found directory]
                     else map (\<lambda>p. Already_exists (detected_title p)) projects @
                          [Added_new 0])) \<and>
           n = card (project_file_path ` set projects - stored_paths d)))"
  proof (cases r)
    case (Inl x)
    with det show ?thesis by (simp add: add_directory_def)
  next
    case (Inr projects)
    show ?thesis
    proof (cases "projects = []")
      case True
      with det Inr show ?thesis by (simp add: add_directory_def)
    next
      case False
      obtain r1 o1 where r1: "insert_projects e today projects d 0 = (r1, o1)"
        by (cases "insert_projects e today projects d 0")
      show ?thesis
      proof (cases r1)
        case (Inl x)
        from insert_projects_raises[OF refl r1[unfolded Inl], of today']
        have "insert_projects e today' projects d 0 = (Inl x, o1)" .
        with det \<open>r = Inr projects\<close> False r1 Inl show ?thesis
          by (simp add: add_directory_def)
      next
        case r: (Inr res)
        obtain d1 n1 where res: "res = (d1, n1)" by (cases res)
        from insert_projects_returns[OF r1[unfolded r res]] have
          all: "\<forall>p \<in> set projects. bind_parameters (raw_parameters p) = None \<and>
                    print_ok e (Already_exists (detected_title p))"
          and sp: "stored_paths d1 = stored_paths d \<union> project_file_path ` set projects"
          and cnt: "n1 = card (project_file_path ` set projects - stored_paths d)" by auto
        have first: "?first = (d1, Inr n1, out @ o1 @ [Added_new n1])"
          using det \<open>r = Inr projects\<close> False r1 r res by (simp add: add_directory_def)
        have "\<forall>q \<in> set projects. project_file_path q \<in> stored_paths d1 \<and>
                 bind_parameters (raw_parameters q) = None \<and>
                 print_ok e (Already_exists (detected_title q))"
          using sp all by auto
        then have "insert_projects e today' projects d1 0 =
            (Inr (d1, 0), map (\<lambda>p. Already_exists (detected_title p)) projects)"
          by (rule insert_projects_known)
        then have second: "add_directory e today' directory d1 =
            (d1, Inr 0,
             out @ map (\<lambda>p. Already_exists (detected_title p)) projects @ [Added_new 0])"
          using det \<open>r = Inr projects\<close> False by (simp add: add_directory_def)
        show ?thesis using first second cnt det \<open>r = Inr projects\<close> False by simp
      qed
    qed
  qed
  from runs known show ?thesis by blast
qed

theorem rescan_adds_nothing_witness:
  "add_directory song_env ex_date ex_root
      (fst (add_directory song_env ex_date ex_root setup_database)) =
     (song_store, Inr 0, [Scanning ex_root, Already_exists ''Song'', Added_new 0]) \<and>
   fst (snd (add_directory song_env ex_date ex_root setup_database)) = Inr 1 \<and>
   project_file_path song_info \<in> stored_paths song_store \<and>
   bind_parameters (raw_parameters song_info) = None \<and>
   print_ok song_env (Already_exists (detected_title song_info)) \<and>
   insert_projects song_env ex_date [song_info] song_store 5 =
     (Inr (song_store, 5), [Already_exists ''Song''])"
proof -
  have known: "project_file_path song_info \<in> stored_paths song_store"
    by (simp add: stored_paths_def song_store_def song_row_def song_info_def)
  have t: "detected_title song_info = ''Song''" by (simp add: song_info_def)
  from rescan_adds_nothing[of song_env ex_date ex_root ex_date setup_database 1 song_info 5]
    rescan_adds_nothing[of song_env ex_date ex_root ex_date song_store 0 song_info 5] known
  show ?thesis
    by (simp add: song_env_add song_env_detect song_info_binds t song_env_print)
qed

subsection \<open>C3: promotion and the discarded set\<close>




subsection \<open>C4: formats that live in a dedicated folder\<close>

text \<open>
  C4. For a Studio One (\<^verbatim>\<open>.song\<close>) or Bitwig (\<^verbatim>\<open>.bwproject\<close>) file whose metadata
  and whose directory can be read, the resolver returns the containing directory as the
  project folder, that directory's name as the title, and as additional files the names
  of the directory's entries, in listing order, that are not the project file, are regular
  files and do not start with a dot (\<^verbatim>\<open>None\<close> when there is none). For
  \<^verbatim>\<open>/root/Song/Song.song\<close> beside \<^verbatim>\<open>Song.wav\<close> this is the folder
  \<^verbatim>\<open>/root/Song\<close>, the title \<^verbatim>\<open>Song\<close> and the files \<^verbatim>\<open>[Song.wav]\<close>.
\<close>

theorem dedicated_folder_resolution:
  assumes "extension = ''.song'' \<or> extension = ''.bwproject''"
    and "stat e project_file = Inr file_stat"
    and "creation_date e file_stat = Inr created"
    and "fromtimestamp e (st_mtime file_stat) = Inr modified"
    and "iterdir e (parent project_file) = Inr entries"
    and "\<forall>n \<in> set entries. is_file e (child (parent project_file) n) = Inr (regular n)"
  shows "analyze_project_file e project_file daw_name extension =
     (Inr (Some \<lparr> project_file_path = str_path project_file,
             project_folder_path = Some (str_path (parent project_file)),
             daw_type = daw_name,
             detected_title = name (parent project_file),
             file_size_mb = round2 (size_mb (st_size file_stat)),
             date_created = created,
             date_modified = modified,
             additional_files =
               (let files = filter (\<lambda>n. child (parent project_file) n \<noteq> project_file \<and>
                                        regular n \<and> \<not> startswith n ''.'') entries
                in if files = [] then None else Some files) \<rparr>), [])"
proof -
  have ft: "folder_and_title e project_file extension =
      Inr (Some (parent project_file), name (parent project_file))"
    using assms(1) by (auto simp: folder_and_title_def)
  have fa: "find_additional_files e (Some (parent project_file)) project_file =
      Inr (filter (\<lambda>n. child (parent project_file) n \<noteq> project_file \<and>
                        regular n \<and> \<not> startswith n ''.'') entries)"
    using assms(5) collect_additional_filter[OF assms(6)]
    by (simp add: find_additional_files_def)
  show ?thesis
    using assms(2-4) ft fa
    by (simp add: analyze_project_file_def analyze_body_def Let_def)
qed

theorem dedicated_folder_resolution_witness:
  "stat ex_env song_file = Inr ex_stat \<and>
   creation_date ex_env ex_stat = Inr ex_date \<and>
   fromtimestamp ex_env (st_mtime ex_stat) = Inr ex_date \<and>
   iterdir ex_env (parent song_file) = Inr [''Song.song'', ''Song.wav'', ''.DS_Store'', ''Audio''] \<and>
   analyze_project_file ex_env song_file ''Studio One'' ''.song'' =
     (Inr (Some \<lparr> project_file_path = ''/root/Song/Song.song'',
             project_folder_path = Some ''/root/Song'',
             daw_type = ''Studio One'',
             detected_title = ''Song'',
             file_size_mb = 3,
             date_created = ex_date,
             date_modified = ex_date,
             additional_files = Some [''Song.wav''] \<rparr>), [])"
proof -
  have 1: "''.song'' = ''.song'' \<or> ''.song'' = ''.bwproject''" by simp
  have 2: "stat ex_env song_file = Inr ex_stat"
    by (simp add: ex_env_def song_file_def broken_file_def)
  have 3: "creation_date ex_env ex_stat = Inr ex_date"
    by (simp add: creation_date_def ex_env_def ex_stat_def)
  have 4: "fromtimestamp ex_env (st_mtime ex_stat) = Inr ex_date"
    by (simp add: ex_env_def)
  have 5: "iterdir ex_env (parent song_file) =
      Inr [''Song.song'', ''Song.wav'', ''.DS_Store'', ''Audio'']"
    by (simp add: ex_env_def song_file_def parent_def)
  have 6: "\<forall>n \<in> set [''Song.song'', ''Song.wav'', ''.DS_Store'', ''Audio''].
      is_file ex_env (child (parent song_file) n) = Inr (n \<notin> set [''Audio'', ''Mix'', ''Song''])"
    by (simp add: ex_env_def name_child)
  from dedicated_folder_resolution[OF 1 2 3 4 5 6, of "''Studio One''"] 2 3 4 5
  show ?thesis
    by (simp add: song_file_def parent_def child_def name_def str_path_def ex_stat_def
        round2_def round_half_even_def ex_size_mb)
qed

subsection \<open>C5: Logic Pro projects\<close>



subsection \<open>C6: the resolver and an unreadable file\<close>

text \<open>
  C6. The handler of \<^verbatim>\<open>_analyze_project_file\<close> prints the path of the file it could
  not read (line 234), and that \<^verbatim>\<open>print\<close> is not guarded. In \<^verbatim>\<open>/root\<close> with
  \<^verbatim>\<open>Track.flp\<close>, a dangling link whose name is not UTF-8, and \<^verbatim>\<open>Demo.flp\<close>,
  on a console that is strictly UTF-8: the body raises \<^verbatim>\<open>OSError\<close>, the handler's
  \<^verbatim>\<open>print\<close> raises \<^verbatim>\<open>UnicodeEncodeError\<close>, the resolver raises it to the
  walker, the walker to \<^verbatim>\<open>add_directory\<close>, and the scan ends with nothing stored,
  the two readable projects included.
\<close>

theorem resolver_raises_on_unprintable_name:
  "\<not> should_skip_file cafe_file \<and>
   stat cafe_env cafe_file = Inl (OSError ''No such file or directory'') \<and>
   stdout_accepts cafe_env = utf8_ok \<and>
   \<not> utf8_ok (str_path cafe_file) \<and>
   analyze_project_file cafe_env cafe_file ''FL Studio'' ''.flp'' = (Inl print_error, []) \<and>
   scan_matches cafe_env ''FL Studio'' ''.flp'' [track_file, cafe_file, demo_file] =
     (Inl print_error, []) \<and>
   detect_daw_projects cafe_env ex_root = (Inl print_error, [Scanning ex_root]) \<and>
   add_directory cafe_env ex_date ex_root setup_database =
     (setup_database, Inl print_error, [Scanning ex_root])"
proof -
  have s: "stat cafe_env cafe_file = Inl (OSError ''No such file or directory'')"
    by (simp add: cafe_env_def)
  have o: "stdout_accepts cafe_env = utf8_ok"
    by (simp add: cafe_env_def ex_env_def)
  have u: "\<not> utf8_ok (str_path cafe_file)" by code_simp
  have a: "analyze_project_file cafe_env cafe_file ''FL Studio'' ''.flp'' =
      (Inl print_error, [])"
    by (simp add: analyze_project_file_def cafe_body cafe_print)
  have m: "scan_matches cafe_env ''FL Studio'' ''.flp'' [track_file, cafe_file, demo_file] =
      (Inl print_error, [])"
    by (simp add: ex_not_skipped cafe_analyze_track a)
  have r: "rglob cafe_env ex_root ''*.flp'' = Inr [track_file, cafe_file, demo_file]"
    by (simp add: cafe_env_def)
  have e: "exists cafe_env ex_root = Inr True" by (simp add: cafe_env_def ex_env_def)
  have p: "scan_patterns cafe_env ex_root daw_patterns = (Inl print_error, [])"
    by (simp add: daw_patterns_def r m del: scan_matches.simps)
  have d: "detect_daw_projects cafe_env ex_root = (Inl print_error, [Scanning ex_root])"
    by (simp add: detect_daw_projects_def e p cafe_print)
  from s o u a m d ex_not_skipped(7) show ?thesis
    by (simp add: add_directory_def)
qed

subsection \<open>C7: ratings outside 1..10\<close>

text \<open>
  C7. A call of \<^verbatim>\<open>refine_project\<close> with a rating below 1 or above 10 leaves the
  database file as it was and does not return \<^verbatim>\<open>True\<close>: on a database file the
  commands produced, with an identifier of 64 bits, it returns \<^verbatim>\<open>False\<close> (an
  identifier of \<open>2 ^ 63\<close> or more makes the lookup raise). When the identifier is that of a
  discovered record and every value binds, the exception caught and printed is the
  \<^verbatim>\<open>IntegrityError\<close> of the \<^verbatim>\<open>CHECK\<close> constraint. In every database file the
  commands produce from a new one, each curated record's rating, when it has one, lies in
  1..10.
\<close>

theorem rating_out_of_range_rejected:
  "(r < 1 \<or> 10 < r \<longrightarrow>
      fst (refine_project e d today raw_id (md\<lparr> md_rating := Some r \<rparr>)) = d \<and>
      fst (snd (refine_project e d today raw_id (md\<lparr> md_rating := Some r \<rparr>))) \<noteq> Inr True \<and>
      (reachable d \<and> int64 raw_id \<longrightarrow>
         fst (snd (refine_project e d today raw_id (md\<lparr> md_rating := Some r \<rparr>))) = Inr False) \<and>
      (reachable d \<and> 0 \<le> raw_id \<and>
       find (\<lambda>x. rowid x = raw_id) (raw_projects d) = Some row \<and>
       bind_parameters (refine_parameters raw_id (md\<lparr> md_rating := Some r \<rparr>) row) = None \<longrightarrow>
         refine_project e d today raw_id (md\<lparr> md_rating := Some r \<rparr>) =
           (d, Inr False,
            [Error_refining
               (IntegrityError ''CHECK constraint failed: rating >= 1 AND rating <= 10'')]))) \<and>
   (reachable d' \<longrightarrow>
      (\<forall>c \<in> set (refined_projects d'). \<forall>x. rf_rating c = Some x \<longrightarrow> 1 \<le> x \<and> x \<le> 10))"
proof -
  let ?md = "md\<lparr> md_rating := Some r \<rparr>"
  have a: "fst (refine_project e d today raw_id ?md) = d \<and>
      fst (snd (refine_project e d today raw_id ?md)) \<noteq> Inr True \<and>
      (int64 raw_id \<longrightarrow> fst (snd (refine_project e d today raw_id ?md)) = Inr False)"
    if range: "r < 1 \<or> 10 < r"
  proof (cases "0 \<le> raw_id \<and> \<not> int64 raw_id")
    case True
    then show ?thesis by (simp add: refine_project_def show_beyond_int64)
  next
    case False
    then have "raw_id < 0 \<or> int64 raw_id" by auto
    from show_returns[OF this, of d] obtain found where
      f: "show_project_details d raw_id = Inr found" by blast
    show ?thesis
    proof (cases found)
      case None
      with f show ?thesis by (simp add: refine_project_def)
    next
      case (Some rp)
      from refine_out_of_range[OF range, of d today raw_id md rp] obtain x where
        "refine_insert d today raw_id ?md rp = Inl x" by blast
      with f Some show ?thesis by (simp add: refine_project_def)
    qed
  qed
  have b: "refine_project e d today raw_id ?md =
           (d, Inr False,
            [Error_refining
               (IntegrityError ''CHECK constraint failed: rating >= 1 AND rating <= 10'')])"
    if "r < 1 \<or> 10 < r" "0 \<le> raw_id" "find (\<lambda>x. rowid x = raw_id) (raw_projects d) = Some row"
      "bind_parameters (refine_parameters raw_id ?md row) = None"
  proof -
    have "Integer_param raw_id \<in> set (refine_parameters raw_id ?md row)"
      by (simp add: refine_parameters_def)
    with that(4) have "int64 raw_id" by (rule bind_parameters_int64)
    from show_by_rowid[OF that(2) this that(3)] refine_check_fails[OF that(1,4), of d today]
    show ?thesis by (simp add: refine_project_def)
  qed
  from a b reachable_ratings[of d'] show ?thesis by blast
qed

theorem rating_out_of_range_rejected_witness:
  "((11::int) < 1 \<or> (10::int) < 11) \<and>
   reachable song_store \<and> int64 1 \<and>
   find (\<lambda>x. rowid x = 1) (raw_projects song_store) = Some song_row \<and>
   bind_parameters (refine_parameters 1 (no_metadata\<lparr> md_rating := Some 11 \<rparr>) song_row) = None \<and>
   bind_parameters (refine_parameters 1 (no_metadata\<lparr> md_rating := Some 0 \<rparr>) song_row) = None \<and>
   refine_project ex_env song_store ex_date 1 (no_metadata\<lparr> md_rating := Some 11 \<rparr>) =
     (song_store, Inr False,
      [Error_refining (IntegrityError ''CHECK constraint failed: rating >= 1 AND rating <= 10'')]) \<and>
   refine_project ex_env song_store ex_date 1 (no_metadata\<lparr> md_rating := Some 0 \<rparr>) =
     (song_store, Inr False,
      [Error_refining (IntegrityError ''CHECK constraint failed: rating >= 1 AND rating <= 10'')]) \<and>
   fst (refine_project ex_env song_store ex_date (2 ^ 63)
          (no_metadata\<lparr> md_rating := Some 11 \<rparr>)) = song_store \<and>
   fst (snd (refine_project ex_env song_store ex_date (2 ^ 63)
               (no_metadata\<lparr> md_rating := Some 11 \<rparr>))) \<noteq> Inr True \<and>
   reachable rated_store \<and>
   map rf_rating (refined_projects rated_store) = [Some 7]"
proof -
  have f: "find (\<lambda>x. rowid x = 1) (raw_projects song_store) = Some song_row"
    by (simp add: song_store_def song_row_def)
  from rating_out_of_range_rejected[of 11 ex_env song_store ex_date 1 no_metadata song_row
      rated_store]
    rating_out_of_range_rejected[of 0 ex_env song_store ex_date 1 no_metadata song_row
      rated_store]
    rating_out_of_range_rejected[of 11 ex_env song_store ex_date "2 ^ 63" no_metadata song_row
      rated_store]
    f rated_store_reachable song_store_reachable rated_store_ratings song_row_binds
  show ?thesis by (simp add: int64_def)
qed

subsection \<open>C8: the discard operation\<close>

text \<open>
  C8. The statements that insert a discarded record (lines 491-519) are not the body of
  any method: \<^verbatim>\<open>tracker.reject_project\<close> raises \<^verbatim>\<open>AttributeError\<close>, and in
  every store the commands produce from a new database the discarded set is empty.
\<close>

theorem discard_is_not_callable:
  "reachable d \<Longrightarrow>
     rejected_projects d = [] \<and>
     main_reject d raw_id reason = Inl (AttributeError ''reject_project'')"
  using reachable_no_rejected[of d]
  by (simp add: main_reject_def getattr_reject_project)

theorem discard_is_not_callable_witness:
  "reachable song_store \<and>
   find (\<lambda>x. rowid x = 1) (raw_projects song_store) = Some song_row \<and>
   rejected_projects song_store = [] \<and>
   main_reject song_store 1 ''Not useful'' = Inl (AttributeError ''reject_project'')"
proof -
  have f: "find (\<lambda>x. rowid x = 1) (raw_projects song_store) = Some song_row"
    by (simp add: song_store_def song_row_def)
  from discard_is_not_callable[OF song_store_reachable, of 1 "''Not useful''"] f
    song_store_reachable
  show ?thesis by simp
qed

subsection \<open>C9: a scan writes only the discovered set\<close>

text \<open>
  C9. For every directory, filesystem, console and store, \<^verbatim>\<open>add_directory\<close> leaves
  a database file whose curated rows and discarded rows are the ones it was given; the
  discovered rows it was given are followed by the new ones, as many as the returned
  count, and none when the call raises.
\<close>

theorem scan_keeps_curated_and_discarded:
  "refined_projects (fst (add_directory e today directory d)) = refined_projects d \<and>
   rejected_projects (fst (add_directory e today directory d)) = rejected_projects d \<and>
   (\<exists>new. raw_projects (fst (add_directory e today directory d)) = raw_projects d @ new \<and>
          length new = (case fst (snd (add_directory e today directory d)) of
                          Inr added_count \<Rightarrow> added_count
                        | Inl x \<Rightarrow> 0))"
proof -
  obtain r out where det: "detect_daw_projects e directory = (r, out)"
    by (cases "detect_daw_projects e directory")
  have app: "\<exists>new. raw_projects (fst (add_directory e today directory d)) = raw_projects d @ new \<and>
          length new = (case fst (snd (add_directory e today directory d)) of
                          Inr added_count \<Rightarrow> added_count
                        | Inl x \<Rightarrow> 0)"
  proof (cases r)
    case (Inl x)
    with det show ?thesis by (simp add: add_directory_def)
  next
    case (Inr projects)
    show ?thesis
    proof (cases "projects = []")
      case True
      with det Inr show ?thesis by (simp add: add_directory_def)
    next
      case False
      obtain r1 o1 where r1: "insert_projects e today projects d 0 = (r1, o1)"
        by (cases "insert_projects e today projects d 0")
      show ?thesis
      proof (cases r1)
        case (Inl x)
        with det \<open>r = Inr projects\<close> False r1 show ?thesis by (simp add: add_directory_def)
      next
        case r: (Inr res)
        obtain d1 n1 where res: "res = (d1, n1)" by (cases res)
        from insert_projects_appends[OF r1[unfolded r res]] det \<open>r = Inr projects\<close> False r1 r res
        show ?thesis by (auto simp: add_directory_def)
      qed
    qed
  qed
  with add_directory_frame[of e today directory d] show ?thesis by simp
qed

subsection \<open>C10: the file size in megabytes\<close>

text \<open>
  C10, as the code has it. For a resolved file of fewer than \<open>2 ^ 53\<close> bytes, the
  \<^verbatim>\<open>file_size_mb\<close> is its size in bytes divided by 1,048,576 and rounded to two
  decimals: a whole number of hundredths at most half a hundredth away from the quotient;
  3,145,728 bytes give 3.00.
\<close>

theorem file_size_two_decimals:
  assumes "analyze_project_file e project_file daw_name extension = (Inr (Some info), out)"
    and "stat e project_file = Inr file_stat"
    and "st_size file_stat < 2 ^ 53"
  shows "file_size_mb info = round2 (of_nat (st_size file_stat) / 1048576) \<and>
         (\<exists>k::int. file_size_mb info = of_int k / 100) \<and>
         \<bar>file_size_mb info - of_nat (st_size file_stat) / 1048576\<bar> \<le> 1 / 200 \<and>
         (st_size file_stat = 3145728 \<longrightarrow> file_size_mb info = 3)"
proof -
  from assms(1) have "analyze_body e project_file daw_name extension = Inr info"
    by (auto simp: analyze_project_file_def split: sum.splits if_splits)
  with assms(2) have "file_size_mb info = round2 (size_mb (st_size file_stat))"
    by (auto simp: analyze_body_def split: sum.splits prod.splits)
  with assms(3) have fs: "file_size_mb info = round2 (of_nat (st_size file_stat) / 1048576)"
    by (simp add: size_mb_small)
  have ex: "\<exists>k::int. file_size_mb info = of_int k / 100"
    unfolding fs round2_def by blast
  have bd: "\<bar>file_size_mb info - of_nat (st_size file_stat) / 1048576\<bar> \<le> 1 / 200"
    unfolding fs by (rule round2_bounds)
  have three: "st_size file_stat = 3145728 \<longrightarrow> file_size_mb info = 3"
    unfolding fs by (simp add: round2_def round_half_even_def)
  from fs ex bd three show ?thesis by blast
qed

theorem file_size_two_decimals_witness:
  "analyze_project_file ex_env song_file ''Studio One'' ''.song'' = (Inr (Some song_info), []) \<and>
   stat ex_env song_file = Inr ex_stat \<and> st_size ex_stat = 3145728 \<and>
   st_size ex_stat < 2 ^ 53 \<and>
   file_size_mb song_info = 3 \<and>
   \<bar>file_size_mb song_info - of_nat (st_size ex_stat) / 1048576\<bar> \<le> 1 / 200"
proof -
  have s: "stat ex_env song_file = Inr ex_stat"
    by (simp add: ex_env_def song_file_def broken_file_def)
  have z: "st_size ex_stat = 3145728" by (simp add: ex_stat_def)
  have b: "st_size ex_stat < 2 ^ 53" by (simp add: ex_stat_def)
  from file_size_two_decimals[OF ex_analyze_song s b] s z b ex_analyze_song
  show ?thesis by simp
qed

text \<open>
  C10, as stated, fails from \<open>2 ^ 53\<close> bytes on, where line 178 rounds the quotient to a
  float before \<^verbatim>\<open>round\<close> sees it. A file of 9,007,199,254,756,721 bytes has
  8589934592.01500034... megabytes, which rounds to 8589934592.02; the code reports
  8589934592.01, more than half a hundredth away.
\<close>

theorem file_size_beyond_float_counterexample:
  "stat big_env track_file = Inr big_stat \<and>
   st_size big_stat = 9007199254756721 \<and>
   analyze_project_file big_env track_file ''FL Studio'' ''.flp'' =
     (Inr (Some (track_info\<lparr> file_size_mb := 858993459201 / 100 \<rparr>)), []) \<and>
   round2 (of_nat (st_size big_stat) / 1048576) = 858993459202 / 100 \<and>
   1 / 200 < \<bar>858993459201 / 100 - of_nat (st_size big_stat) / (1048576::rat)\<bar>"
proof -
  have s: "stat big_env track_file = Inr big_stat" by (simp add: big_env_def)
  have z: "st_size big_stat = 9007199254756721" by (simp add: big_stat_def)
  have q1: "round_half_even (size_mb 9007199254756721 * 100) = 858993459201"
    unfolding size_mb_big by (rule round_half_even_below) simp_all
  have r1: "round2 (size_mb 9007199254756721) = 858993459201 / 100"
    unfolding round2_def q1 by simp
  have q2: "round_half_even (9007199254756721 / 1048576 * 100) = 858993459201 + 1"
    by (rule round_half_even_above) simp_all
  have r2: "round2 (9007199254756721 / 1048576) = 858993459202 / 100"
    unfolding round2_def q2 by simp
  have a: "analyze_project_file big_env track_file ''FL Studio'' ''.flp'' =
     (Inr (Some (track_info\<lparr> file_size_mb := 858993459201 / 100 \<rparr>)), [])"
    by (simp add: big_env_def ex_env_def big_stat_def analyze_project_file_def analyze_body_def
        creation_date_def folder_and_title_def find_additional_files_def r1
        track_file_def path_defs track_info_def)
  have g: "1 / 200 < \<bar>858993459201 / 100 - 9007199254756721 / (1048576::rat)\<bar>"
    by simp
  from s z a r2 g show ?thesis by simp
qed


end
